theory Spec2Isabelle
  imports Main
begin

section \<open>The stub header \<open>stdio.h\<close> of the WebAssembly sysroot\<close>

text \<open>
  The header \<^verbatim>\<open>crates/arborium-sysroot/wasm-sysroot/stdio.h\<close> consists of an include
  guard, one object-like macro, two type definitions, two external declarations and six
  function-like macros. It is embedded as the list of its lines; what the lines mean is
  given by the translation phases of C that read them: conditional inclusion and macro
  definition, macro replacement, declarations, and the resolution of external symbols.
\<close>

subsection \<open>Preprocessing tokens and macros\<close>

datatype tok = Ident string | Num nat | LParen | RParen | Comma | Punct string

text \<open>
  \<^verbatim>\<open>#define NAME body\<close> is an object-like macro; \<^verbatim>\<open>#define NAME(p1, ..., pn) body\<close> is a
  function-like macro, whose flag says whether the parameter list ends in \<^verbatim>\<open>...\<close>.
\<close>

datatype macro = ObjLike "tok list" | FunLike "string list" bool "tok list"

subsection \<open>Types and declarations\<close>

datatype signedness = Signed | Unsigned

datatype rank = RShort | RInt | RLong | RLongLong

datatype ctype =
    TVoid
  | TChar
  | TInteger signedness rank
  | TConst ctype
  | TPtr ctype
  | TStruct "(string \<times> ctype) list"

text \<open>
  A type that a typedef names is written as the constant of that name (\<open>FILE\<close>,
  \<open>size_t\<close> below), so a declaration holds the types themselves.

  A declaration at file scope. \<open>FunDecl\<close> carries the return type, the named parameters
  and whether the parameter list ends in \<^verbatim>\<open>...\<close>. \<open>VarDef\<close> and \<open>FunDef\<close> are the
  declarations that also define their identifier (they reserve storage, or have a body).
\<close>

datatype decl =
    Typedef string ctype
  | ExternVar string ctype
  | FunDecl string ctype "(string \<times> ctype) list" bool
  | VarDef string ctype
  | FunDef string ctype "(string \<times> ctype) list" bool

subsection \<open>The header, line by line\<close>

text \<open>
  A line of the header is one of the directives \<^verbatim>\<open>#ifndef\<close>, \<^verbatim>\<open>#define\<close>, \<^verbatim>\<open>#endif\<close>, or
  a declaration. A declaration is kept as what it declares, not as tokens: when the
  header's declarations are read, the only macros defined are \<^verbatim>\<open>_STDIO_H\<close> and \<open>NULL\<close>,
  and neither name occurs in them.
\<close>

datatype line = IfNDef string | Define string macro | EndIf | Decl decl

text \<open>\<^verbatim>\<open>#define NULL ((void*)0)\<close>\<close>

definition NULL :: macro where
  "NULL = ObjLike [LParen, LParen, Ident ''void'', Punct ''*'', RParen, Num 0, RParen]"

text \<open>\<^verbatim>\<open>typedef unsigned long size_t;\<close>\<close>

definition size_t :: ctype where
  "size_t = TInteger Unsigned RLong"

text \<open>\<^verbatim>\<open>typedef struct {} FILE;\<close>\<close>

definition FILE :: ctype where
  "FILE = TStruct []"

text \<open>\<^verbatim>\<open>extern FILE *stderr;\<close>\<close>

definition stderr :: decl where
  "stderr = ExternVar ''stderr'' (TPtr FILE)"

text \<open>\<^verbatim>\<open>int fprintf(FILE* stream, const char* format, ...);\<close>\<close>

definition fprintf :: decl where
  "fprintf = FunDecl ''fprintf'' (TInteger Signed RInt)
     [(''stream'', TPtr FILE), (''format'', TPtr (TConst TChar))] True"

text \<open>\<^verbatim>\<open>#define snprintf(str, size, format, ...) 0\<close>\<close>

definition snprintf :: macro where
  "snprintf = FunLike [''str'', ''size'', ''format''] True [Num 0]"

text \<open>\<^verbatim>\<open>#define vsnprintf(str, size, format, ap) 0\<close>\<close>

definition vsnprintf :: macro where
  "vsnprintf = FunLike [''str'', ''size'', ''format'', ''ap''] False [Num 0]"

text \<open>\<^verbatim>\<open>#define fputs(s, stream) 0\<close>\<close>

definition fputs :: macro where
  "fputs = FunLike [''s'', ''stream''] False [Num 0]"

text \<open>\<^verbatim>\<open>#define fputc(c, stream) 0\<close>\<close>

definition fputc :: macro where
  "fputc = FunLike [''c'', ''stream''] False [Num 0]"

text \<open>\<^verbatim>\<open>#define fdopen(fd, mode) NULL\<close>\<close>

definition fdopen :: macro where
  "fdopen = FunLike [''fd'', ''mode''] False [Ident ''NULL'']"

text \<open>\<^verbatim>\<open>#define fclose(stream) 0\<close>\<close>

definition fclose :: macro where
  "fclose = FunLike [''stream''] False [Num 0]"

text \<open>The whole file, from \<^verbatim>\<open>#ifndef _STDIO_H\<close> to \<^verbatim>\<open>#endif\<close>.\<close>

definition stdio_h :: "line list" where
  "stdio_h =
    [IfNDef ''_STDIO_H'',
     Define ''_STDIO_H'' (ObjLike []),
     Define ''NULL'' NULL,
     Decl (Typedef ''size_t'' size_t),
     Decl (Typedef ''FILE'' FILE),
     Decl stderr,
     Decl fprintf,
     Define ''snprintf'' snprintf,
     Define ''vsnprintf'' vsnprintf,
     Define ''fputs'' fputs,
     Define ''fputc'' fputc,
     Define ''fdopen'' fdopen,
     Define ''fclose'' fclose,
     EndIf]"

subsection \<open>Errors of translation\<close>

datatype cerror =
    MacroRedefined string
  | Redeclared string
  | StrayEndif
  | UnterminatedConditional
  | UnterminatedInvocation string
  | WrongArgCount string nat
  | SyntaxError
  | EvalError
  | NoMember string
  | NotAStruct
  | Undeclared string
  | BadCall string
  | Unresolved string
  | MultiplyDefined string

subsection \<open>Reading a file: conditional inclusion, macro definition, declarations\<close>

text \<open>
  What a translation unit has seen so far: the macros that are defined, and the
  declarations in the order they were made.
\<close>

record pstate =
  macros :: "(string \<times> macro) list"
  decls :: "decl list"

definition tu_start :: pstate where
  "tu_start = \<lparr>macros = [], decls = []\<rparr>"

fun decl_name :: "decl \<Rightarrow> string" where
  "decl_name (Typedef n _) = n"
| "decl_name (ExternVar n _) = n"
| "decl_name (FunDecl n _ _ _) = n"
| "decl_name (VarDef n _) = n"
| "decl_name (FunDef n _ _ _) = n"

fun is_definition :: "decl \<Rightarrow> bool" where
  "is_definition (VarDef _ _) = True"
| "is_definition (FunDef _ _ _ _) = True"
| "is_definition _ = False"

fun is_struct_spec :: "ctype \<Rightarrow> bool" where
  "is_struct_spec (TStruct _) = True"
| "is_struct_spec (TConst t) = is_struct_spec t"
| "is_struct_spec _ = False"

text \<open>
  May \<open>d'\<close> declare an identifier that \<open>d\<close> has declared before? A typedef may be
  repeated only to name the same type, and a struct specifier with a member list declares
  a new type each time it is written (C11 6.7p3, 6.7.2.1p8, 6.7.2.3p5), so a typedef of an
  untagged struct can never be repeated. An object or a function may be declared again
  with the same type, and defined once.
\<close>

fun compatible :: "decl \<Rightarrow> decl \<Rightarrow> bool" where
  "compatible (Typedef _ t) (Typedef _ t') = (t = t' \<and> \<not> is_struct_spec t)"
| "compatible (ExternVar _ t) (ExternVar _ t') = (t = t')"
| "compatible (ExternVar _ t) (VarDef _ t') = (t = t')"
| "compatible (VarDef _ t) (ExternVar _ t') = (t = t')"
| "compatible (FunDecl _ r ps v) (FunDecl _ r' ps' v') =
     (r = r' \<and> map snd ps = map snd ps' \<and> v = v')"
| "compatible (FunDecl _ r ps v) (FunDef _ r' ps' v') =
     (r = r' \<and> map snd ps = map snd ps' \<and> v = v')"
| "compatible (FunDef _ r ps v) (FunDecl _ r' ps' v') =
     (r = r' \<and> map snd ps = map snd ps' \<and> v = v')"
| "compatible _ _ = False"

definition declare_in :: "decl \<Rightarrow> pstate \<Rightarrow> cerror + pstate" where
  "declare_in d s =
     (if list_all (\<lambda>d'. if decl_name d' = decl_name d then compatible d' d else True) (decls s)
      then Inr (s\<lparr>decls := decls s @ [d]\<rparr>)
      else Inl (Redeclared (decl_name d)))"

text \<open>
  A macro may be defined again only by an identical definition (C11 6.10.3p2).
\<close>

definition define_macro :: "string \<Rightarrow> macro \<Rightarrow> pstate \<Rightarrow> cerror + pstate" where
  "define_macro n m s =
     (case map_of (macros s) n of
        None \<Rightarrow> Inr (s\<lparr>macros := macros s @ [(n, m)]\<rparr>)
      | Some m' \<Rightarrow> if m' = m then Inr s else Inl (MacroRedefined n))"

text \<open>
  The stack \<open>c\<close> holds one flag for each \<^verbatim>\<open>#ifndef\<close> that is open in the file being read,
  the innermost first: whether its group is processed or skipped. A line is processed
  when no open group is skipped. The file must close every conditional it opens.
\<close>

definition active :: "bool list \<Rightarrow> bool" where
  "active c = (False \<notin> set c)"

fun run_lines :: "line list \<Rightarrow> bool list \<Rightarrow> pstate \<Rightarrow> cerror + pstate" where
  "run_lines [] c s = (if c = [] then Inr s else Inl UnterminatedConditional)"
| "run_lines (IfNDef n # ls) c s =
     run_lines ls ((active c \<and> map_of (macros s) n = None) # c) s"
| "run_lines (EndIf # ls) c s =
     (case c of [] \<Rightarrow> Inl StrayEndif | _ # c' \<Rightarrow> run_lines ls c' s)"
| "run_lines (Define n m # ls) c s =
     (if active c
      then (case define_macro n m s of Inl e \<Rightarrow> Inl e | Inr s' \<Rightarrow> run_lines ls c s')
      else run_lines ls c s)"
| "run_lines (Decl d # ls) c s =
     (if active c
      then (case declare_in d s of Inl e \<Rightarrow> Inl e | Inr s' \<Rightarrow> run_lines ls c s')
      else run_lines ls c s)"

text \<open>\<^verbatim>\<open>#include\<close> of a file, in a translation unit that has reached state \<open>s\<close>.\<close>

definition include_file :: "line list \<Rightarrow> pstate \<Rightarrow> cerror + pstate" where
  "include_file f s = run_lines f [] s"

text \<open>The same file included \<open>k\<close> times in a row.\<close>

fun include_times :: "nat \<Rightarrow> line list \<Rightarrow> pstate \<Rightarrow> cerror + pstate" where
  "include_times 0 f s = Inr s"
| "include_times (Suc k) f s =
     (case include_file f s of Inl e \<Rightarrow> Inl e | Inr s' \<Rightarrow> include_times k f s')"

text \<open>The macros and the declarations a file's lines hold, guard or no guard.\<close>

fun defines_of :: "line list \<Rightarrow> (string \<times> macro) list" where
  "defines_of [] = []"
| "defines_of (Define n m # ls) = (n, m) # defines_of ls"
| "defines_of (_ # ls) = defines_of ls"

fun decls_of :: "line list \<Rightarrow> decl list" where
  "decls_of [] = []"
| "decls_of (Decl d # ls) = d # decls_of ls"
| "decls_of (_ # ls) = decls_of ls"

subsection \<open>Macro replacement\<close>

text \<open>
  The arguments of an invocation (C11 6.10.3p11): the tokens after the opening parenthesis
  up to the closing parenthesis that matches it, split at the commas that stand outside
  every nested pair of parentheses. \<open>d\<close> counts the nested parentheses that are open. The
  result holds the arguments and the tokens after the closing parenthesis; an invocation
  with nothing between its parentheses has one empty argument.
\<close>

fun collect_args :: "nat \<Rightarrow> tok list \<Rightarrow> (tok list list \<times> tok list) option" where
  "collect_args d [] = None"
| "collect_args d (t # ts) =
     (if t = RParen \<and> d = 0 then Some ([[]], ts)
      else case collect_args (if t = LParen then Suc d else if t = RParen then d - 1 else d) ts of
             None \<Rightarrow> None
           | Some ([], rest) \<Rightarrow> None
           | Some (a # as, rest) \<Rightarrow>
               if t = Comma \<and> d = 0 then Some ([] # a # as, rest)
               else Some ((t # a) # as, rest))"

fun join_commas :: "tok list list \<Rightarrow> tok list" where
  "join_commas [] = []"
| "join_commas [a] = a"
| "join_commas (a # b # as) = a @ Comma # join_commas (b # as)"

text \<open>
  The arguments are bound to the parameters. A macro without \<^verbatim>\<open>...\<close> takes as many
  arguments as it has parameters (C11 6.10.3p4); a macro with \<^verbatim>\<open>...\<close> takes at least as
  many, and the arguments beyond the named parameters, with the commas between them, are
  bound to \<^verbatim>\<open>__VA_ARGS__\<close>. (C11 asks for at least one argument there; C23 and the
  compilers accept none, which is what is modelled.)
\<close>

definition bind_args ::
  "string \<Rightarrow> string list \<Rightarrow> bool \<Rightarrow> tok list list \<Rightarrow> cerror + (string \<times> tok list) list" where
  "bind_args n ps va args =
     (if va then
        (if length ps \<le> length args
         then Inr (zip ps args @ [(''__VA_ARGS__'', join_commas (drop (length ps) args))])
         else Inl (WrongArgCount n (length args)))
      else if ps = [] \<and> args = [[]] then Inr []
      else if length args = length ps then Inr (zip ps args)
      else Inl (WrongArgCount n (length args)))"

definition then_append :: "cerror + tok list \<Rightarrow> cerror + tok list \<Rightarrow> cerror + tok list" where
  "then_append r r' =
     (case r of
        Inl e \<Rightarrow> Inl e
      | Inr xs \<Rightarrow> (case r' of Inl e \<Rightarrow> Inl e | Inr ys \<Rightarrow> Inr (xs @ ys)))"

text \<open>The measures of the termination proof of macro replacement.\<close>

definition env_size :: "(string \<times> tok list) list \<Rightarrow> nat" where
  "env_size env = sum_list (map (length \<circ> snd) env)"

definition unhidden :: "(string \<times> macro) list \<Rightarrow> string list \<Rightarrow> nat" where
  "unhidden tbl hide = card (fst ` set tbl - set hide)"

lemma collect_args_size:
  "collect_args d ts = Some (args, rest) \<Longrightarrow>
     length (concat args) + length args + length rest = length ts"
proof (induction d ts arbitrary: args rest rule: collect_args.induct)
  case (1 d)
  then show ?case by simp
next
  case (2 d t ts)
  then show ?case
    by (auto split: if_splits option.splits prod.splits list.splits)
qed

lemma length_join_commas:
  "length (join_commas as) + 1 \<le> length (concat as) + length as + (if as = [] then 1 else 0)"
  by (induction as rule: join_commas.induct) auto

lemma map_of_env_size: "map_of env p = Some a \<Longrightarrow> length a \<le> env_size env"
  unfolding env_size_def
  by (induction env) (auto split: if_splits)

lemma zip_env_size: "env_size (zip ps args) \<le> length (concat (take (length ps) args))"
  unfolding env_size_def
proof (induction ps args rule: list_induct2')
  case (4 x xs y ys)
  then show ?case by simp
qed simp_all

lemma env_size_append: "env_size (xs @ ys) = env_size xs + env_size ys"
  by (simp add: env_size_def)

lemma concat_take_drop:
  "length (concat (take k xs)) + length (concat (drop k xs)) = length (concat xs)"
  by (metis append_take_drop_id concat_append length_append)

lemma bind_args_size:
  assumes "bind_args n ps va args = Inr env"
  shows "env_size env \<le> length (concat args) + length args"
proof (cases va)
  case True
  with assms have le: "length ps \<le> length args"
    and env: "env = zip ps args @ [(''__VA_ARGS__'', join_commas (drop (length ps) args))]"
    by (auto simp: bind_args_def split: if_splits)
  have "length (join_commas (drop (length ps) args))
          \<le> length (concat (drop (length ps) args)) + length args"
    using length_join_commas [of "drop (length ps) args"] by (auto split: if_splits)
  then show ?thesis
    using zip_env_size [of ps args] concat_take_drop [of "length ps" args]
    by (simp add: env env_size_append) (simp add: env_size_def)
next
  case False
  with assms have "env = [] \<or> env = zip ps args"
    by (auto simp: bind_args_def split: if_splits)
  then show ?thesis
    using zip_env_size [of ps args] concat_take_drop [of "length ps" args]
    by (auto simp: env_size_def)
qed

lemma unhidden_less:
  assumes "n \<notin> set hide" and "map_of tbl n = Some m"
  shows "unhidden tbl (n # hide) < unhidden tbl hide"
proof -
  from assms have "n \<in> fst ` set tbl" by (force dest: map_of_SomeD)
  with assms have "n \<in> fst ` set tbl - set hide" by simp
  then have "fst ` set tbl - set (n # hide) \<subset> fst ` set tbl - set hide" by auto
  then show ?thesis
    unfolding unhidden_def by (intro psubset_card_mono) auto
qed

text \<open>
  Macro replacement of a token sequence (C11 6.10.3) under the macro table \<open>tbl\<close>. An
  identifier that names an object-like macro is replaced by the macro's replacement list;
  one that names a function-like macro and is followed by \<^verbatim>\<open>(\<close> is replaced, with its
  arguments, by the replacement list in which each parameter has given way to its
  argument, itself macro-replaced first (6.10.3.1); a function-like macro's name that is
  not followed by \<^verbatim>\<open>(\<close> stays as it is. The result is scanned again for macros, the
  name of the macro being replaced excepted (6.10.3.4): \<open>hide\<close> holds the names that are
  being replaced. An argument is macro-replaced only where its parameter occurs in the
  replacement list.

  The operators \<^verbatim>\<open>#\<close> and \<^verbatim>\<open>##\<close> are not modelled, and a replacement is scanned again
  without the tokens that follow the invocation: the header uses neither operator, and
  none of its replacement lists ends in the name of a function-like macro.
\<close>

function (sequential)
  pp :: "(string \<times> macro) list \<Rightarrow> string list \<Rightarrow> tok list \<Rightarrow> cerror + tok list" and
  subst :: "(string \<times> macro) list \<Rightarrow> string list \<Rightarrow> (string \<times> tok list) list \<Rightarrow> tok list
              \<Rightarrow> cerror + tok list"
where
  "pp tbl hide [] = Inr []"
| "pp tbl hide (Ident n # ts) =
     (case (if n \<in> set hide then None else map_of tbl n) of
        None \<Rightarrow> then_append (Inr [Ident n]) (pp tbl hide ts)
      | Some (ObjLike body) \<Rightarrow> then_append (pp tbl (n # hide) body) (pp tbl hide ts)
      | Some (FunLike ps va body) \<Rightarrow>
          (case ts of
             LParen # ts' \<Rightarrow>
               (case collect_args 0 ts' of
                  None \<Rightarrow> Inl (UnterminatedInvocation n)
                | Some (args, rest) \<Rightarrow>
                    (case bind_args n ps va args of
                       Inl e \<Rightarrow> Inl e
                     | Inr env \<Rightarrow>
                         (case subst tbl hide env body of
                            Inl e \<Rightarrow> Inl e
                          | Inr body' \<Rightarrow>
                              then_append (pp tbl (n # hide) body') (pp tbl hide rest))))
           | _ \<Rightarrow> then_append (Inr [Ident n]) (pp tbl hide ts)))"
| "pp tbl hide (t # ts) = then_append (Inr [t]) (pp tbl hide ts)"
| "subst tbl hide env [] = Inr []"
| "subst tbl hide env (Ident p # body) =
     (case map_of env p of
        None \<Rightarrow> then_append (Inr [Ident p]) (subst tbl hide env body)
      | Some arg \<Rightarrow> then_append (pp tbl hide arg) (subst tbl hide env body))"
| "subst tbl hide env (t # body) = then_append (Inr [t]) (subst tbl hide env body)"
  by pat_completeness auto

termination
  apply (relation "inv_image (less_than <*lex*> less_than <*lex*> less_than)
      (\<lambda>x. case x of
         Inl (tbl, hide, ts) \<Rightarrow> (unhidden tbl hide, 2 * length ts, 0)
       | Inr (tbl, hide, env, body) \<Rightarrow> (unhidden tbl hide, 2 * env_size env + 1, length body))")
   apply simp_all
  apply (auto split: if_splits dest!: collect_args_size bind_args_size map_of_env_size
              dest: unhidden_less)
  done

text \<open>
  The client code \<open>toks\<close> of a translation unit that starts with \<^verbatim>\<open>#include\<close> of the
  file \<open>f\<close>, after macro replacement.
\<close>

definition preprocess :: "line list \<Rightarrow> tok list \<Rightarrow> cerror + tok list" where
  "preprocess f toks =
     (case include_file f tu_start of
        Inl e \<Rightarrow> Inl e
      | Inr s \<Rightarrow> pp (macros s) [] toks)"

text \<open>The tokens of the invocation \<^verbatim>\<open>f(a1, ..., an)\<close>.\<close>

definition invocation :: "string \<Rightarrow> tok list list \<Rightarrow> tok list" where
  "invocation f args = Ident f # LParen # join_commas args @ [RParen]"

text \<open>
  What can stand as one argument of an invocation: a token sequence in which the
  parentheses match and no comma stands outside them. \<open>arg_depth d a\<close> reads \<open>a\<close> with
  \<open>d\<close> parentheses open and asks that none is open at its end.
\<close>

fun arg_depth :: "nat \<Rightarrow> tok list \<Rightarrow> bool" where
  "arg_depth d [] = (d = 0)"
| "arg_depth d (LParen # ts) = arg_depth (Suc d) ts"
| "arg_depth d (RParen # ts) = (0 < d \<and> arg_depth (d - 1) ts)"
| "arg_depth d (Comma # ts) = (0 < d \<and> arg_depth d ts)"
| "arg_depth d (_ # ts) = arg_depth d ts"

definition is_argument :: "tok list \<Rightarrow> bool" where
  "is_argument a = arg_depth 0 a"

subsection \<open>Expressions\<close>

text \<open>
  The expressions that the header's replacement lists and the tests of client code are
  written in: integer constants, identifiers, assignment to an identifier, the cast
  \<^verbatim>\<open>(void*)\<close>, one comparison with \<^verbatim>\<open>==\<close>, and parentheses.
\<close>

datatype expr =
    EInt nat
  | EVar string
  | EAssign string expr
  | ECast ctype expr
  | EEq expr expr

text \<open>
  A recursive-descent parser. Its first argument bounds the depth of the recursion;
  \<open>parse_expr\<close> starts it with a bound that no token sequence exhausts, and accepts when
  no token is left over.
\<close>

fun parse_assign :: "nat \<Rightarrow> tok list \<Rightarrow> (expr \<times> tok list) option"
  and parse_equality :: "nat \<Rightarrow> tok list \<Rightarrow> (expr \<times> tok list) option"
  and parse_cast :: "nat \<Rightarrow> tok list \<Rightarrow> (expr \<times> tok list) option"
  and parse_primary :: "nat \<Rightarrow> tok list \<Rightarrow> (expr \<times> tok list) option"
where
  "parse_assign 0 ts = None"
| "parse_assign (Suc k) ts =
     (case ts of
        Ident x # Punct p # ts' \<Rightarrow>
          if p = ''=''
          then (case parse_assign k ts' of
                  None \<Rightarrow> None
                | Some (e, r) \<Rightarrow> Some (EAssign x e, r))
          else parse_equality k ts
      | _ \<Rightarrow> parse_equality k ts)"
| "parse_equality k ts =
     (case parse_cast k ts of
        None \<Rightarrow> None
      | Some (a, Punct p # ts') \<Rightarrow>
          if p = ''==''
          then (case parse_cast k ts' of
                  None \<Rightarrow> None
                | Some (b, r) \<Rightarrow> Some (EEq a b, r))
          else Some (a, Punct p # ts')
      | Some (a, r) \<Rightarrow> Some (a, r))"
| "parse_cast 0 ts = None"
| "parse_cast (Suc k) ts =
     (case ts of
        LParen # Ident v # Punct p # RParen # ts' \<Rightarrow>
          if v = ''void'' \<and> p = ''*''
          then (case parse_cast k ts' of
                  None \<Rightarrow> None
                | Some (e, r) \<Rightarrow> Some (ECast (TPtr TVoid) e, r))
          else parse_primary k ts
      | _ \<Rightarrow> parse_primary k ts)"
| "parse_primary k ts =
     (case ts of
        Num n # r \<Rightarrow> Some (EInt n, r)
      | Ident x # r \<Rightarrow> Some (EVar x, r)
      | LParen # r \<Rightarrow>
          (case parse_assign k r of
             Some (e, RParen # r') \<Rightarrow> Some (e, r')
           | _ \<Rightarrow> None)
      | _ \<Rightarrow> None)"

definition parse_expr :: "tok list \<Rightarrow> expr option" where
  "parse_expr ts =
     (case parse_assign (2 * length ts + 2) ts of
        Some (e, []) \<Rightarrow> Some e
      | _ \<Rightarrow> None)"

text \<open>
  Values: an integer, a pointer (\<open>None\<close> is the null pointer, \<open>Some a\<close> points to the
  address \<open>a\<close>), or an object of a struct type, given by the values of its members.
\<close>

datatype cval = VInt int | VPtr "int option" | VStruct "cval list"

type_synonym store = "string \<rightharpoonup> cval"

text \<open>
  Conversion to a pointer type: the integer 0 gives the null pointer (C11 6.3.2.3p3).
\<close>

fun to_pointer :: "cval \<Rightarrow> cval option" where
  "to_pointer (VInt i) = Some (VPtr (if i = 0 then None else Some i))"
| "to_pointer (VPtr p) = Some (VPtr p)"
| "to_pointer (VStruct _) = None"

text \<open>
  \<^verbatim>\<open>==\<close> on two integers, on two pointers, or on a pointer and the integer 0 (which
  stands for the null pointer there); its result is the integer 1 or 0.
\<close>

fun c_equal :: "cval \<Rightarrow> cval \<Rightarrow> cval option" where
  "c_equal (VInt a) (VInt b) = Some (VInt (if a = b then 1 else 0))"
| "c_equal (VPtr p) (VPtr q) = Some (VInt (if p = q then 1 else 0))"
| "c_equal (VPtr p) (VInt b) = (if b = 0 then Some (VInt (if p = None then 1 else 0)) else None)"
| "c_equal (VInt a) (VPtr q) = (if a = 0 then Some (VInt (if q = None then 1 else 0)) else None)"
| "c_equal _ _ = None"

text \<open>
  Evaluation of an expression in a store of variables: the value, and the store after
  the expression's side effects.
\<close>

fun eval :: "expr \<Rightarrow> store \<Rightarrow> (cval \<times> store) option" where
  "eval (EInt n) \<sigma> = Some (VInt (int n), \<sigma>)"
| "eval (EVar x) \<sigma> = (case \<sigma> x of None \<Rightarrow> None | Some v \<Rightarrow> Some (v, \<sigma>))"
| "eval (EAssign x e) \<sigma> =
     (case eval e \<sigma> of
        None \<Rightarrow> None
      | Some (v, \<sigma>') \<Rightarrow> Some (v, \<sigma>'(x \<mapsto> v)))"
| "eval (ECast t e) \<sigma> =
     (case eval e \<sigma> of
        None \<Rightarrow> None
      | Some (v, \<sigma>') \<Rightarrow>
          (case t of
             TPtr _ \<Rightarrow> (case to_pointer v of None \<Rightarrow> None | Some w \<Rightarrow> Some (w, \<sigma>'))
           | _ \<Rightarrow> Some (v, \<sigma>')))"
| "eval (EEq a b) \<sigma> =
     (case eval a \<sigma> of
        None \<Rightarrow> None
      | Some (v, \<sigma>') \<Rightarrow>
          (case eval b \<sigma>' of
             None \<Rightarrow> None
           | Some (w, \<sigma>'') \<Rightarrow>
               (case c_equal v w of None \<Rightarrow> None | Some r \<Rightarrow> Some (r, \<sigma>''))))"

text \<open>
  The client expression \<open>toks\<close> of a translation unit that starts with \<^verbatim>\<open>#include\<close> of
  the file \<open>f\<close>: macro replacement and parsing, then evaluation in the store \<open>\<sigma>\<close>.
\<close>

definition translate :: "line list \<Rightarrow> tok list \<Rightarrow> cerror + expr" where
  "translate f toks =
     (case preprocess f toks of
        Inl e \<Rightarrow> Inl e
      | Inr ts \<Rightarrow> (case parse_expr ts of None \<Rightarrow> Inl SyntaxError | Some e \<Rightarrow> Inr e))"

definition evaluate :: "line list \<Rightarrow> tok list \<Rightarrow> store \<Rightarrow> cerror + cval \<times> store" where
  "evaluate f toks \<sigma> =
     (case translate f toks of
        Inl e \<Rightarrow> Inl e
      | Inr e \<Rightarrow> (case eval e \<sigma> of None \<Rightarrow> Inl EvalError | Some r \<Rightarrow> Inr r))"

text \<open>
  \<^verbatim>\<open>if (toks) A else B\<close>: the branch that is taken, and the store it starts in. A scalar
  value selects the first branch when it is not zero.
\<close>

fun truthy :: "cval \<Rightarrow> bool" where
  "truthy (VInt i) = (i \<noteq> 0)"
| "truthy (VPtr p) = (p \<noteq> None)"
| "truthy (VStruct _) = False"

definition branch :: "line list \<Rightarrow> tok list \<Rightarrow> store \<Rightarrow> 'a \<Rightarrow> 'a \<Rightarrow> cerror + 'a \<times> store" where
  "branch f toks \<sigma> A B =
     (case evaluate f toks \<sigma> of
        Inl e \<Rightarrow> Inl e
      | Inr (v, \<sigma>') \<Rightarrow> Inr (if truthy v then A else B, \<sigma>'))"

text \<open>
  The type of a constant expression, and the null pointer constants: an integer
  constant expression with the value 0, or such an expression cast to \<^verbatim>\<open>void *\<close>
  (C11 6.3.2.3p3).
\<close>

fun type_of :: "expr \<Rightarrow> ctype option" where
  "type_of (EInt n) = Some (TInteger Signed RInt)"
| "type_of (ECast t e) = Some t"
| "type_of (EEq a b) = Some (TInteger Signed RInt)"
| "type_of _ = None"

fun null_pointer_constant :: "expr \<Rightarrow> bool" where
  "null_pointer_constant (EInt n) = (n = 0)"
| "null_pointer_constant (ECast t (EInt n)) = (t = TPtr TVoid \<and> n = 0)"
| "null_pointer_constant _ = False"

text \<open>
  May the expression \<open>e\<close> stand where a value of type \<open>t\<close> is expected (as the right side
  of an assignment, an initialiser, an argument, a returned value; C11 6.5.16.1)? Where a
  pointer is expected: a null pointer constant, an expression of the same type, and, for
  a pointer to an object type, an expression of type \<^verbatim>\<open>void *\<close>.
\<close>

fun usable_as :: "ctype \<Rightarrow> expr \<Rightarrow> bool" where
  "usable_as (TPtr t) e =
     (null_pointer_constant e \<or> type_of e = Some (TPtr t) \<or> type_of e = Some (TPtr TVoid))"
| "usable_as t e = (type_of e = Some t)"

subsection \<open>The targets, and the values of a type\<close>

text \<open>
  The header does not say how wide \<^verbatim>\<open>long\<close> or a pointer is: that is the target's data
  model. The header belongs to a sysroot for WebAssembly, whose two targets have the data
  models ILP32 (wasm32) and LP64 (wasm64); in both, \<^verbatim>\<open>long\<close> is as wide as a pointer.
\<close>

record data_model =
  short_bits :: nat
  int_bits :: nat
  long_bits :: nat
  long_long_bits :: nat
  pointer_bits :: nat

datatype target = Wasm32 | Wasm64

fun abi :: "target \<Rightarrow> data_model" where
  "abi Wasm32 =
     \<lparr>short_bits = 16, int_bits = 32, long_bits = 32, long_long_bits = 64, pointer_bits = 32\<rparr>"
| "abi Wasm64 =
     \<lparr>short_bits = 16, int_bits = 32, long_bits = 64, long_long_bits = 64, pointer_bits = 64\<rparr>"

fun rank_bits :: "data_model \<Rightarrow> rank \<Rightarrow> nat" where
  "rank_bits dm RShort = short_bits dm"
| "rank_bits dm RInt = int_bits dm"
| "rank_bits dm RLong = long_bits dm"
| "rank_bits dm RLongLong = long_long_bits dm"

fun is_unsigned :: "ctype \<Rightarrow> bool" where
  "is_unsigned (TInteger sg r) = (sg = Unsigned)"
| "is_unsigned (TConst t) = is_unsigned t"
| "is_unsigned _ = False"

text \<open>The width of a scalar type; the layout of structs is not modelled.\<close>

fun type_bits :: "data_model \<Rightarrow> ctype \<Rightarrow> nat option" where
  "type_bits dm (TInteger sg r) = Some (rank_bits dm r)"
| "type_bits dm TChar = Some 8"
| "type_bits dm (TPtr t) = Some (pointer_bits dm)"
| "type_bits dm (TConst t) = type_bits dm t"
| "type_bits dm _ = None"

text \<open>
  The values of a type: an unsigned integer type of width \<open>w\<close> holds the integers from 0
  to \<open>2 ^ w - 1\<close>, a signed one those from \<open>- 2 ^ (w - 1)\<close> to \<open>2 ^ (w - 1) - 1\<close>; a
  pointer is null or an address; an object of a struct type has one value for each
  member, of the member's type.
\<close>

fun has_type :: "data_model \<Rightarrow> cval \<Rightarrow> ctype \<Rightarrow> bool" where
  "has_type dm v (TConst t) = has_type dm v t"
| "has_type dm (VInt i) (TInteger Unsigned r) = (0 \<le> i \<and> i < 2 ^ rank_bits dm r)"
| "has_type dm (VInt i) (TInteger Signed r) =
     (- (2 ^ (rank_bits dm r - 1)) \<le> i \<and> i < 2 ^ (rank_bits dm r - 1))"
| "has_type dm (VInt i) TChar = (- 128 \<le> i \<and> i < 128)"
| "has_type dm (VPtr p) (TPtr t) =
     (case p of None \<Rightarrow> True | Some a \<Rightarrow> 0 < a \<and> a < 2 ^ pointer_bits dm)"
| "has_type dm (VStruct vs) (TStruct fs) = list_all2 (\<lambda>v f. has_type dm v (snd f)) vs fs"
| "has_type dm _ _ = False"

text \<open>The type of the member \<open>m\<close> of an object of type \<open>t\<close>.\<close>

fun member_type :: "ctype \<Rightarrow> string \<Rightarrow> cerror + ctype" where
  "member_type (TStruct fs) m =
     (case map_of fs m of None \<Rightarrow> Inl (NoMember m) | Some t \<Rightarrow> Inr t)"
| "member_type (TConst t) m = member_type t m"
| "member_type _ m = Inl NotAStruct"

subsection \<open>Translation units and linking\<close>

text \<open>
  What the code of a translation unit does with the identifiers it sees declared: it
  calls a function with arguments of some types, refers to an object or a function, or
  accesses a member of an object (\<^verbatim>\<open>x.m\<close>) or of the object a pointer points to
  (\<^verbatim>\<open>x->m\<close>).
\<close>

datatype use = Call string "ctype list" | Ref string | Dot string string | Arrow string string

text \<open>
  A translation unit that starts with \<^verbatim>\<open>#include\<close> of a header: its own declarations
  at file scope, and the uses in its code.
\<close>

record tunit =
  own :: "decl list"
  uses :: "use list"

text \<open>
  An object file: the external symbols it defines, and those it refers to and leaves
  to the linker.
\<close>

record objfile =
  obj_defined :: "string list"
  obj_undefined :: "string list"

fun unqual :: "ctype \<Rightarrow> ctype" where
  "unqual (TConst t) = unqual t"
| "unqual t = t"

fun is_const :: "ctype \<Rightarrow> bool" where
  "is_const (TConst t) = True"
| "is_const t = False"

fun is_arith :: "ctype \<Rightarrow> bool" where
  "is_arith (TInteger sg r) = True"
| "is_arith TChar = True"
| "is_arith t = False"

text \<open>
  May an argument of type \<open>a\<close> be passed for a parameter of type \<open>p\<close> (C11 6.5.2.2p7,
  6.5.16.1)? Arithmetic types convert to each other; a pointer converts to a pointer to
  the same type or to or from a pointer to \<^verbatim>\<open>void\<close>, and \<^verbatim>\<open>const\<close> may be added to the
  type pointed to, not taken away.
\<close>

fun assignable :: "ctype \<Rightarrow> ctype \<Rightarrow> bool" where
  "assignable (TPtr p) (TPtr a) =
     ((unqual p = unqual a \<or> unqual p = TVoid \<or> unqual a = TVoid) \<and>
      (if is_const a then is_const p else True))"
| "assignable p a = (unqual p = unqual a \<or> (is_arith (unqual p) \<and> is_arith (unqual a)))"

definition lookup_decl :: "decl list \<Rightarrow> string \<Rightarrow> decl option" where
  "lookup_decl ds n = find (\<lambda>d. decl_name d = n) ds"

fun object_type :: "decl \<Rightarrow> ctype option" where
  "object_type (ExternVar n t) = Some t"
| "object_type (VarDef n t) = Some t"
| "object_type d = None"

text \<open>
  A call needs a declaration of the function in scope; its arguments are checked
  against the parameters of the prototype, the ones that \<^verbatim>\<open>...\<close> stands for excepted.
\<close>

definition check_call :: "string \<Rightarrow> (string \<times> ctype) list \<Rightarrow> bool \<Rightarrow> ctype list \<Rightarrow> cerror + string list" where
  "check_call f ps va ts =
     (if (if va then length ps \<le> length ts else length ts = length ps) \<and>
         list_all2 assignable (map snd ps) (take (length ps) ts)
      then Inr [f]
      else Inl (BadCall f))"

text \<open>One use, checked against the declarations in scope: the external symbols it refers to.\<close>

fun check_use :: "decl list \<Rightarrow> use \<Rightarrow> cerror + string list" where
  "check_use ds (Call f ts) =
     (case lookup_decl ds f of
        Some (FunDecl n r ps va) \<Rightarrow> check_call f ps va ts
      | Some (FunDef n r ps va) \<Rightarrow> check_call f ps va ts
      | _ \<Rightarrow> Inl (Undeclared f))"
| "check_use ds (Ref x) =
     (case lookup_decl ds x of
        None \<Rightarrow> Inl (Undeclared x)
      | Some (Typedef n t) \<Rightarrow> Inl (Undeclared x)
      | Some d \<Rightarrow> Inr [x])"
| "check_use ds (Dot x m) =
     (case lookup_decl ds x of
        None \<Rightarrow> Inl (Undeclared x)
      | Some d \<Rightarrow>
          (case object_type d of
             None \<Rightarrow> Inl (Undeclared x)
           | Some t \<Rightarrow> (case member_type t m of Inl e \<Rightarrow> Inl e | Inr t' \<Rightarrow> Inr [x])))"
| "check_use ds (Arrow x m) =
     (case lookup_decl ds x of
        None \<Rightarrow> Inl (Undeclared x)
      | Some d \<Rightarrow>
          (case object_type d of
             Some (TPtr t) \<Rightarrow> (case member_type t m of Inl e \<Rightarrow> Inl e | Inr t' \<Rightarrow> Inr [x])
           | Some t \<Rightarrow> Inl NotAStruct
           | None \<Rightarrow> Inl (Undeclared x)))"

fun check_uses :: "decl list \<Rightarrow> use list \<Rightarrow> cerror + string list" where
  "check_uses ds [] = Inr []"
| "check_uses ds (u # us) =
     (case check_use ds u of
        Inl e \<Rightarrow> Inl e
      | Inr xs \<Rightarrow> (case check_uses ds us of Inl e \<Rightarrow> Inl e | Inr ys \<Rightarrow> Inr (xs @ ys)))"

fun declare_all :: "decl list \<Rightarrow> pstate \<Rightarrow> cerror + pstate" where
  "declare_all [] s = Inr s"
| "declare_all (d # ds) s =
     (case declare_in d s of Inl e \<Rightarrow> Inl e | Inr s' \<Rightarrow> declare_all ds s')"

text \<open>
  Compilation of a translation unit that includes the header \<open>f\<close>: the header is read,
  the unit's own declarations are made, its uses are checked. The object file defines
  what the unit's declarations define, and leaves undefined what the code refers to
  and the unit does not define.
\<close>

definition compile :: "line list \<Rightarrow> tunit \<Rightarrow> cerror + objfile" where
  "compile f u =
     (case include_file f tu_start of
        Inl e \<Rightarrow> Inl e
      | Inr s \<Rightarrow>
          (case declare_all (own u) s of
             Inl e \<Rightarrow> Inl e
           | Inr s' \<Rightarrow>
               (case check_uses (decls s') (uses u) of
                  Inl e \<Rightarrow> Inl e
                | Inr refs \<Rightarrow>
                    Inr \<lparr>obj_defined = map decl_name (filter is_definition (decls s')),
                         obj_undefined =
                           remdups (filter (\<lambda>x. x \<notin> decl_name ` set (filter is_definition (decls s')))
                                      refs)\<rparr>)))"

text \<open>
  Linking: an external symbol is defined at most once in the program, and every
  symbol that an object file leaves undefined is defined by some object file. The
  result is the list of the symbols of the program.
\<close>

definition link :: "objfile list \<Rightarrow> cerror + string list" where
  "link objs =
     (case find (\<lambda>x. 1 < count_list (concat (map obj_defined objs)) x)
             (concat (map obj_defined objs)) of
        Some x \<Rightarrow> Inl (MultiplyDefined x)
      | None \<Rightarrow>
          (case find (\<lambda>x. x \<notin> set (concat (map obj_defined objs)))
                  (concat (map obj_undefined objs)) of
             Some x \<Rightarrow> Inl (Unresolved x)
           | None \<Rightarrow> Inr (concat (map obj_defined objs))))"

section \<open>Properties of the header\<close>

subsection \<open>Reading the header\<close>

lemmas header_defs =
  stdio_h_def NULL_def size_t_def FILE_def stderr_def fprintf_def
  snprintf_def vsnprintf_def fputs_def fputc_def fdopen_def fclose_def

lemma include_stdio_h:
  "include_file stdio_h tu_start = Inr \<lparr>macros = defines_of stdio_h, decls = decls_of stdio_h\<rparr>"
  by (simp add: include_file_def tu_start_def active_def define_macro_def declare_in_def header_defs)

lemma map_of_append_Some: "map_of xs n = Some m \<Longrightarrow> map_of (xs @ ys) n = Some m"
  by (simp add: map_add_Some_iff)

lemma define_macro_keeps:
  "define_macro n' m' s = Inr s' \<Longrightarrow> map_of (macros s) n = Some m \<Longrightarrow> map_of (macros s') n = Some m"
  by (auto simp: define_macro_def map_of_append_Some split: option.splits if_splits)

lemma declare_in_macros: "declare_in d s = Inr s' \<Longrightarrow> macros s' = macros s"
  by (auto simp: declare_in_def split: if_splits)

lemma run_lines_keeps:
  "run_lines ls c s = Inr s' \<Longrightarrow> map_of (macros s) n = Some m \<Longrightarrow> map_of (macros s') n = Some m"
proof (induction ls c s rule: run_lines.induct)
  case (1 c s)
  then show ?case by (simp split: if_splits)
next
  case (2 n' ls c s)
  then show ?case by simp
next
  case (3 ls c s)
  then show ?case by (simp split: list.splits)
next
  case (4 n' m' ls c s)
  then show ?case
    by (auto split: if_splits sum.splits dest: define_macro_keeps)
next
  case (5 d ls c s)
  then show ?case
    by (auto split: if_splits sum.splits dest: declare_in_macros)
qed

lemma include_guarded:
  assumes "map_of (macros s) ''_STDIO_H'' = Some m"
  shows "include_file stdio_h s = Inr s"
  using assms by (simp add: include_file_def stdio_h_def active_def)

lemma include_defines_guard:
  assumes "include_file stdio_h s = Inr s'"
  shows "\<exists>m. map_of (macros s') ''_STDIO_H'' = Some m"
proof (cases "map_of (macros s) ''_STDIO_H''")
  case (Some m)
  with assms show ?thesis by (simp add: include_guarded)
next
  case None
  define s1 where "s1 = s\<lparr>macros := macros s @ [(''_STDIO_H'', ObjLike [])]\<rparr>"
  have g: "map_of (macros s1) ''_STDIO_H'' = Some (ObjLike [])"
    using None by (simp add: s1_def map_add_def)
  from assms None have "run_lines (tl (tl stdio_h)) [True] s1 = Inr s'"
    by (simp add: include_file_def stdio_h_def active_def define_macro_def s1_def)
  from run_lines_keeps [OF this g] show ?thesis by blast
qed

lemma include_twice:
  assumes "include_file stdio_h s = Inr s'"
  shows "include_file stdio_h s' = Inr s'"
  using include_defines_guard [OF assms] include_guarded by blast

lemma include_times_again:
  "include_file stdio_h s = Inr s' \<Longrightarrow> include_times k stdio_h s' = Inr s'"
  by (induction k) (simp_all add: include_twice)

text \<open>
  C10. Including the header is idempotent. In any state of a translation unit,
  including \<open>stdio.h\<close> one or more times in a row gives what including it once gives
  (the same macros and declarations, or the same error); and in a translation unit that
  has seen nothing else, every such number of inclusions succeeds with the header's eight
  macros and four declarations, each entered once, no redefinition being reported.
\<close>

theorem include_idempotent:
  "include_times (Suc k) stdio_h s = include_file stdio_h s \<and>
   include_times (Suc k) stdio_h tu_start =
     Inr \<lparr>macros =
            [(''_STDIO_H'', ObjLike []), (''NULL'', NULL), (''snprintf'', snprintf),
             (''vsnprintf'', vsnprintf), (''fputs'', fputs), (''fputc'', fputc),
             (''fdopen'', fdopen), (''fclose'', fclose)],
          decls = [Typedef ''size_t'' size_t, Typedef ''FILE'' FILE, stderr, fprintf]\<rparr>"
proof
  show "include_times (Suc k) stdio_h s = include_file stdio_h s"
    by (cases "include_file stdio_h s") (simp_all add: include_times_again)
  have "defines_of stdio_h =
      [(''_STDIO_H'', ObjLike []), (''NULL'', NULL), (''snprintf'', snprintf),
       (''vsnprintf'', vsnprintf), (''fputs'', fputs), (''fputc'', fputc),
       (''fdopen'', fdopen), (''fclose'', fclose)]"
    and "decls_of stdio_h = [Typedef ''size_t'' size_t, Typedef ''FILE'' FILE, stderr, fprintf]"
    by (simp_all add: stdio_h_def)
  then show "include_times (Suc k) stdio_h tu_start =
     Inr \<lparr>macros =
            [(''_STDIO_H'', ObjLike []), (''NULL'', NULL), (''snprintf'', snprintf),
             (''vsnprintf'', vsnprintf), (''fputs'', fputs), (''fputc'', fputc),
             (''fdopen'', fdopen), (''fclose'', fclose)],
          decls = [Typedef ''size_t'' size_t, Typedef ''FILE'' FILE, stderr, fprintf]\<rparr>"
    using include_stdio_h by (simp add: include_times_again)
qed

text \<open>Without its guard, the header cannot be included twice.\<close>

lemma unguarded_twice:
  "include_times 2 (butlast (drop 2 stdio_h)) tu_start = Inl (Redeclared ''FILE'')"
  by (simp add: eval_nat_numeral include_file_def tu_start_def active_def define_macro_def
      declare_in_def header_defs)

subsection \<open>Macro replacement of the header's macros\<close>

lemma preprocess_stdio_h: "preprocess stdio_h toks = pp (defines_of stdio_h) [] toks"
  by (simp add: preprocess_def include_stdio_h)

lemma stdio_macros:
  "map_of (defines_of stdio_h) ''NULL'' = Some NULL"
  "map_of (defines_of stdio_h) ''snprintf'' = Some snprintf"
  "map_of (defines_of stdio_h) ''vsnprintf'' = Some vsnprintf"
  "map_of (defines_of stdio_h) ''fputs'' = Some fputs"
  "map_of (defines_of stdio_h) ''fputc'' = Some fputc"
  "map_of (defines_of stdio_h) ''fdopen'' = Some fdopen"
  "map_of (defines_of stdio_h) ''fclose'' = Some fclose"
  "map_of (defines_of stdio_h) ''void'' = None"
  by (simp_all add: stdio_h_def)

lemma collect_args_append:
  "arg_depth d a \<Longrightarrow> collect_args 0 tail = Some (b # bs, rest) \<Longrightarrow>
     collect_args d (a @ tail) = Some ((a @ b) # bs, rest)"
  by (induction d a rule: arg_depth.induct) auto

lemma collect_args_join:
  "list_all is_argument args \<Longrightarrow> args \<noteq> [] \<Longrightarrow>
     collect_args 0 (join_commas args @ RParen # rest) = Some (args, rest)"
proof (induction args rule: join_commas.induct)
  case 1
  then show ?case by simp
next
  case (2 a)
  then show ?case
    using collect_args_append [of 0 a "RParen # rest" "[]" "[]" rest]
    by (simp add: is_argument_def)
next
  case (3 a b as)
  then have "collect_args 0 (Comma # join_commas (b # as) @ RParen # rest) = Some ([] # b # as, rest)"
    by simp
  with 3 show ?case
    using collect_args_append [of 0 a "Comma # join_commas (b # as) @ RParen # rest" "[]" "b # as" rest]
    by (simp add: is_argument_def)
qed

text \<open>
  An invocation with well-formed arguments: the arguments are bound, the replacement
  list is substituted and scanned again, and replacement goes on behind the invocation.
\<close>

lemma pp_invocation:
  assumes "map_of tbl n = Some (FunLike ps va body)" and "n \<notin> set hide"
    and "list_all is_argument args" and "args \<noteq> []"
  shows "pp tbl hide (invocation n args @ rest) =
     (case bind_args n ps va args of
        Inl e \<Rightarrow> Inl e
      | Inr env \<Rightarrow>
          (case subst tbl hide env body of
             Inl e \<Rightarrow> Inl e
           | Inr body' \<Rightarrow> then_append (pp tbl (n # hide) body') (pp tbl hide rest)))"
  using assms collect_args_join [of args rest]
  by (simp add: invocation_def)

text \<open>A replacement list that is the single token 0 ignores what the arguments are.\<close>

lemma pp_zero_macro:
  assumes "map_of tbl n = Some (FunLike ps va [Num 0])"
    and "list_all is_argument args" and "args \<noteq> []"
    and "bind_args n ps va args = Inr env"
  shows "pp tbl [] (invocation n args @ rest) = then_append (Inr [Num 0]) (pp tbl [] rest)"
  using assms by (simp add: pp_invocation then_append_def)

lemma pp_zero_macro':
  assumes "map_of tbl n = Some (FunLike ps va [Num 0])"
    and "list_all is_argument args" and "args \<noteq> []"
    and "bind_args n ps va args = Inr env"
  shows "pp tbl [] (invocation n args) = Inr [Num 0]"
  using pp_zero_macro [OF assms, of "[]"] by (simp add: then_append_def)

lemma pp_fclose:
  assumes "is_argument stream"
  shows "pp (defines_of stdio_h) [] (invocation ''fclose'' [stream]) = Inr [Num 0]"
  using assms
  by (intro pp_zero_macro' [where ps = "[''stream'']" and va = False
                              and env = "[(''stream'', stream)]"])
     (simp_all add: stdio_macros fclose_def bind_args_def)

lemma pp_fdopen:
  assumes "is_argument fd" and "is_argument mode"
  shows "pp (defines_of stdio_h) [] (invocation ''fdopen'' [fd, mode] @ rest) =
     then_append (Inr [LParen, LParen, Ident ''void'', Punct ''*'', RParen, Num 0, RParen])
       (pp (defines_of stdio_h) [] rest)"
proof -
  have "pp (defines_of stdio_h) [] (invocation ''fdopen'' [fd, mode] @ rest) =
      then_append (pp (defines_of stdio_h) [''fdopen''] [Ident ''NULL''])
        (pp (defines_of stdio_h) [] rest)"
    using assms
    by (subst pp_invocation [where ps = "[''fd'', ''mode'']" and va = False and body = "[Ident ''NULL'']"])
       (simp_all add: stdio_macros fdopen_def bind_args_def then_append_def)
  also have "pp (defines_of stdio_h) [''fdopen''] [Ident ''NULL''] =
      Inr [LParen, LParen, Ident ''void'', Punct ''*'', RParen, Num 0, RParen]"
    by (simp add: stdio_macros NULL_def then_append_def)
  finally show ?thesis .
qed

lemma translate_zero:
  "preprocess f toks = Inr [Num 0] \<Longrightarrow> translate f toks = Inr (EInt 0)"
  by (simp add: translate_def parse_expr_def eval_nat_numeral)

lemma evaluate_zero:
  "preprocess f toks = Inr [Num 0] \<Longrightarrow> evaluate f toks \<sigma> = Inr (VInt 0, \<sigma>)"
  by (simp add: evaluate_def translate_zero)

lemma evaluate_null:
  "preprocess f toks = Inr [LParen, LParen, Ident ''void'', Punct ''*'', RParen, Num 0, RParen] \<Longrightarrow>
     evaluate f toks \<sigma> = Inr (VPtr None, \<sigma>)"
  by (simp add: evaluate_def translate_def parse_expr_def eval_nat_numeral)

lemma arg_depth_append:
  "arg_depth e a \<Longrightarrow> arg_depth d b \<Longrightarrow> arg_depth (e + d) (a @ b)"
  by (induction e a rule: arg_depth.induct) auto

lemma arg_depth_join:
  "list_all is_argument args \<Longrightarrow> arg_depth (Suc 0) (join_commas args @ [RParen])"
proof (induction args rule: join_commas.induct)
  case 1
  then show ?case by simp
next
  case (2 a)
  then show ?case
    using arg_depth_append [of 0 a "Suc 0" "[RParen]"] by (simp add: is_argument_def)
next
  case (3 a b as)
  then show ?case
    using arg_depth_append [of 0 a "Suc 0" "Comma # join_commas (b # as) @ [RParen]"]
    by (simp add: is_argument_def)
qed

lemma invocation_is_argument:
  "list_all is_argument args \<Longrightarrow> is_argument (invocation f args)"
  using arg_depth_join [of args] by (simp add: is_argument_def invocation_def)

text \<open>
  Any list of arguments, the empty one too: \<^verbatim>\<open>f()\<close> is read as an invocation with one
  empty argument.
\<close>

lemma collect_args_invocation:
  "list_all is_argument args \<Longrightarrow>
     collect_args 0 (join_commas args @ RParen # rest) =
       Some (if args = [] then [[]] else args, rest)"
  by (cases "args = []") (simp_all add: collect_args_join)

lemma pp_invocation_any:
  assumes "map_of tbl n = Some (FunLike ps va body)" and "n \<notin> set hide"
    and "list_all is_argument args"
  shows "pp tbl hide (invocation n args @ rest) =
     (case bind_args n ps va (if args = [] then [[]] else args) of
        Inl e \<Rightarrow> Inl e
      | Inr env \<Rightarrow>
          (case subst tbl hide env body of
             Inl e \<Rightarrow> Inl e
           | Inr body' \<Rightarrow> then_append (pp tbl (n # hide) body') (pp tbl hide rest)))"
  using assms collect_args_invocation [of args rest]
  by (simp add: invocation_def)

lemma given_length: "length (if args = [] then [[]] else args) = max 1 (length args)"
  by (cases args) simp_all

text \<open>
  A macro with named parameters only and the replacement list \<open>0\<close>: the number of
  arguments decides between \<open>0\<close> and the error, and nothing else does.
\<close>

lemma pp_zero_fixed:
  assumes "map_of tbl n = Some (FunLike ps False [Num 0])" and "ps \<noteq> []"
    and "list_all is_argument args"
  shows "pp tbl [] (invocation n args) =
     (if max 1 (length args) = length ps then Inr [Num 0]
      else Inl (WrongArgCount n (max 1 (length args))))"
  using pp_invocation_any [OF assms(1) _ assms(3), of "[]" "[]"] assms(2)
  by (auto simp: bind_args_def given_length then_append_def simp del: max.absorb1 max.absorb2 max.absorb3 max.absorb4)

lemma pp_zero_variadic:
  assumes "map_of tbl n = Some (FunLike ps True [Num 0])"
    and "list_all is_argument args"
  shows "pp tbl [] (invocation n args) =
     (if length ps \<le> max 1 (length args) then Inr [Num 0]
      else Inl (WrongArgCount n (max 1 (length args))))"
  using pp_invocation_any [OF assms(1) _ assms(2), of "[]" "[]"]
  by (auto simp: bind_args_def given_length then_append_def)

lemma preprocess_snprintf:
  assumes "list_all is_argument args"
  shows "preprocess stdio_h (invocation ''snprintf'' args) =
     (if 3 \<le> length args then Inr [Num 0]
      else Inl (WrongArgCount ''snprintf'' (max 1 (length args))))"
  using pp_zero_variadic [of "defines_of stdio_h" "''snprintf''" "[''str'', ''size'', ''format'']" args]
    assms
  by (auto simp: preprocess_stdio_h stdio_macros snprintf_def)

lemma preprocess_vsnprintf:
  assumes "list_all is_argument args"
  shows "preprocess stdio_h (invocation ''vsnprintf'' args) =
     (if length args = 4 then Inr [Num 0]
      else Inl (WrongArgCount ''vsnprintf'' (max 1 (length args))))"
  using pp_zero_fixed [of "defines_of stdio_h" "''vsnprintf''" "[''str'', ''size'', ''format'', ''ap'']" args]
    assms
  by (auto simp: preprocess_stdio_h stdio_macros vsnprintf_def)

lemma preprocess_fputs:
  assumes "list_all is_argument args"
  shows "preprocess stdio_h (invocation ''fputs'' args) =
     (if length args = 2 then Inr [Num 0]
      else Inl (WrongArgCount ''fputs'' (max 1 (length args))))"
  using pp_zero_fixed [of "defines_of stdio_h" "''fputs''" "[''s'', ''stream'']" args] assms
  by (auto simp: preprocess_stdio_h stdio_macros fputs_def)

lemma preprocess_fputc:
  assumes "list_all is_argument args"
  shows "preprocess stdio_h (invocation ''fputc'' args) =
     (if length args = 2 then Inr [Num 0]
      else Inl (WrongArgCount ''fputc'' (max 1 (length args))))"
  using pp_zero_fixed [of "defines_of stdio_h" "''fputc''" "[''c'', ''stream'']" args] assms
  by (auto simp: preprocess_stdio_h stdio_macros fputc_def)

lemma preprocess_fclose:
  assumes "list_all is_argument args"
  shows "preprocess stdio_h (invocation ''fclose'' args) =
     (if length args \<le> 1 then Inr [Num 0]
      else Inl (WrongArgCount ''fclose'' (length args)))"
  using pp_zero_fixed [of "defines_of stdio_h" "''fclose''" "[''stream'']" args] assms
  by (auto simp: preprocess_stdio_h stdio_macros fclose_def)

lemma preprocess_fdopen_any:
  assumes "list_all is_argument args"
  shows "preprocess stdio_h (invocation ''fdopen'' args) =
     (if length args = 2
      then Inr [LParen, LParen, Ident ''void'', Punct ''*'', RParen, Num 0, RParen]
      else Inl (WrongArgCount ''fdopen'' (max 1 (length args))))"
proof (cases "length args = 2")
  case True
  then obtain fd mode where args: "args = [fd, mode]"
    by (cases args; cases "tl args") auto
  with assms show ?thesis
    using pp_fdopen [of fd mode "[]"]
    by (simp add: preprocess_stdio_h then_append_def)
next
  case False
  then have "bind_args ''fdopen'' [''fd'', ''mode''] False (if args = [] then [[]] else args) =
      Inl (WrongArgCount ''fdopen'' (max 1 (length args)))"
    by (cases args) (auto simp: bind_args_def)
  with False assms show ?thesis
    using pp_invocation_any [of "defines_of stdio_h" "''fdopen''" "[''fd'', ''mode'']" False
        "[Ident ''NULL'']" "[]" args "[]"]
    by (simp add: preprocess_stdio_h stdio_macros fdopen_def)
qed

lemma evaluate_error:
  "preprocess f toks = Inl e \<Longrightarrow> evaluate f toks \<sigma> = Inl e"
  by (simp add: evaluate_def translate_def)

subsection \<open>The substituted operations\<close>

text \<open>
  C1, as amended. For every argument list whose length fits the macro's parameter list
  (at least three arguments for \<open>snprintf\<close>, whose parameter list ends in \<^verbatim>\<open>...\<close>;
  exactly four for \<open>vsnprintf\<close>), whatever the arguments are, the invocation is replaced
  by the single token \<open>0\<close>, which parses as the integer constant 0; no argument is
  evaluated: the expression evaluates to 0 in every store and leaves the store as it was.
  For every argument list of another length the invocation is an error of macro
  replacement, which reports the number of arguments given (an invocation with nothing
  between its parentheses has one, empty, argument).
\<close>

theorem snprintf_vsnprintf_zero:
  assumes "list_all is_argument args"
  shows "preprocess stdio_h (invocation ''snprintf'' args) =
           (if 3 \<le> length args then Inr [Num 0]
            else Inl (WrongArgCount ''snprintf'' (max 1 (length args)))) \<and>
         preprocess stdio_h (invocation ''vsnprintf'' args) =
           (if length args = 4 then Inr [Num 0]
            else Inl (WrongArgCount ''vsnprintf'' (max 1 (length args)))) \<and>
         (3 \<le> length args \<longrightarrow>
            translate stdio_h (invocation ''snprintf'' args) = Inr (EInt 0) \<and>
            evaluate stdio_h (invocation ''snprintf'' args) \<sigma> = Inr (VInt 0, \<sigma>)) \<and>
         (length args = 4 \<longrightarrow>
            translate stdio_h (invocation ''vsnprintf'' args) = Inr (EInt 0) \<and>
            evaluate stdio_h (invocation ''vsnprintf'' args) \<sigma> = Inr (VInt 0, \<sigma>)) \<and>
         (length args < 3 \<longrightarrow>
            evaluate stdio_h (invocation ''snprintf'' args) \<sigma> =
              Inl (WrongArgCount ''snprintf'' (max 1 (length args)))) \<and>
         (length args \<noteq> 4 \<longrightarrow>
            evaluate stdio_h (invocation ''vsnprintf'' args) \<sigma> =
              Inl (WrongArgCount ''vsnprintf'' (max 1 (length args))))"
  using assms
  by (simp add: preprocess_snprintf preprocess_vsnprintf evaluate_zero translate_zero evaluate_error)

text \<open>
  \<^verbatim>\<open>snprintf(buf, 16, fmt, i = 1)\<close> and \<^verbatim>\<open>vsnprintf(buf, 16, fmt, i = 1)\<close>: the
  assignment in the last argument is not carried out. \<^verbatim>\<open>snprintf(buf, 16, fmt)\<close> has
  no argument for \<^verbatim>\<open>...\<close>. \<^verbatim>\<open>vsnprintf(buf, 16, fmt, ap, i = 1)\<close> has one argument
  too many, \<^verbatim>\<open>snprintf()\<close> two too few.
\<close>

theorem snprintf_vsnprintf_zero_witness:
  "list_all is_argument
     [[Ident ''buf''], [Num 16], [Ident ''fmt''], [Ident ''i'', Punct ''='', Num 1]] \<and>
   preprocess stdio_h
     (invocation ''snprintf''
        [[Ident ''buf''], [Num 16], [Ident ''fmt''], [Ident ''i'', Punct ''='', Num 1]]) =
     Inr [Num 0] \<and>
   evaluate stdio_h
     (invocation ''vsnprintf''
        [[Ident ''buf''], [Num 16], [Ident ''fmt''], [Ident ''i'', Punct ''='', Num 1]])
     Map.empty = Inr (VInt 0, Map.empty) \<and>
   preprocess stdio_h (invocation ''snprintf'' [[Ident ''buf''], [Num 16], [Ident ''fmt'']]) =
     Inr [Num 0] \<and>
   evaluate stdio_h
     (invocation ''vsnprintf''
        [[Ident ''buf''], [Num 16], [Ident ''fmt''], [Ident ''ap''], [Ident ''i'', Punct ''='', Num 1]])
     Map.empty = Inl (WrongArgCount ''vsnprintf'' 5) \<and>
   preprocess stdio_h (invocation ''snprintf'' []) = Inl (WrongArgCount ''snprintf'' 1)"
  using snprintf_vsnprintf_zero
    [of "[[Ident ''buf''], [Num 16], [Ident ''fmt''], [Ident ''i'', Punct ''='', Num 1]]" Map.empty]
    snprintf_vsnprintf_zero [of "[[Ident ''buf''], [Num 16], [Ident ''fmt'']]" Map.empty]
    snprintf_vsnprintf_zero
    [of "[[Ident ''buf''], [Num 16], [Ident ''fmt''], [Ident ''ap''], [Ident ''i'', Punct ''='', Num 1]]"
        Map.empty]
    snprintf_vsnprintf_zero [of "[]" Map.empty]
  by (simp add: is_argument_def)

text \<open>
  C1 as stated fails: an argument list of the wrong length is not replaced by \<open>0\<close>, it
  is an error of macro replacement. \<^verbatim>\<open>vsnprintf(buf, 16, fmt)\<close> has three arguments
  for four parameters, \<^verbatim>\<open>snprintf(buf, 16)\<close> two for three.
\<close>

theorem vsnprintf_three_arguments:
  "preprocess stdio_h (invocation ''vsnprintf'' [[Ident ''buf''], [Num 16], [Ident ''fmt'']]) =
     Inl (WrongArgCount ''vsnprintf'' 3) \<and>
   preprocess stdio_h (invocation ''snprintf'' [[Ident ''buf''], [Num 16]]) =
     Inl (WrongArgCount ''snprintf'' 2)"
  unfolding preprocess_stdio_h
  by (simp add: invocation_def stdio_macros vsnprintf_def snprintf_def bind_args_def)

text \<open>
  C2, as amended. For every argument list of two arguments, \<open>fputs\<close> and \<open>fputc\<close> are
  replaced by the single token \<open>0\<close>: both arguments, the stream among them, are dropped
  from the text and never evaluated; the value is 0 and the store is left as it was. For
  every argument list of another length the invocation is an error of macro replacement.
  So for any two argument lists of the same length the result and the store after it are
  the same: they depend on the number of the arguments and on nothing else in them.
\<close>

theorem fputs_fputc_zero:
  assumes "list_all is_argument args" and "list_all is_argument args'"
  shows "preprocess stdio_h (invocation ''fputs'' args) =
           (if length args = 2 then Inr [Num 0]
            else Inl (WrongArgCount ''fputs'' (max 1 (length args)))) \<and>
         preprocess stdio_h (invocation ''fputc'' args) =
           (if length args = 2 then Inr [Num 0]
            else Inl (WrongArgCount ''fputc'' (max 1 (length args)))) \<and>
         (length args = 2 \<longrightarrow>
            evaluate stdio_h (invocation ''fputs'' args) \<sigma> = Inr (VInt 0, \<sigma>) \<and>
            evaluate stdio_h (invocation ''fputc'' args) \<sigma> = Inr (VInt 0, \<sigma>)) \<and>
         (length args \<noteq> 2 \<longrightarrow>
            evaluate stdio_h (invocation ''fputs'' args) \<sigma> =
              Inl (WrongArgCount ''fputs'' (max 1 (length args))) \<and>
            evaluate stdio_h (invocation ''fputc'' args) \<sigma> =
              Inl (WrongArgCount ''fputc'' (max 1 (length args)))) \<and>
         (length args = length args' \<longrightarrow>
            evaluate stdio_h (invocation ''fputs'' args') \<sigma> =
              evaluate stdio_h (invocation ''fputs'' args) \<sigma> \<and>
            evaluate stdio_h (invocation ''fputc'' args') \<sigma> =
              evaluate stdio_h (invocation ''fputc'' args) \<sigma>)"
proof -
  have e: "evaluate stdio_h (invocation ''fputs'' as) \<sigma> =
        (if length as = 2 then Inr (VInt 0, \<sigma>)
         else Inl (WrongArgCount ''fputs'' (max 1 (length as))))"
      "evaluate stdio_h (invocation ''fputc'' as) \<sigma> =
        (if length as = 2 then Inr (VInt 0, \<sigma>)
         else Inl (WrongArgCount ''fputc'' (max 1 (length as))))"
    if "list_all is_argument as" for as
    using that by (simp_all add: preprocess_fputs preprocess_fputc evaluate_zero evaluate_error)
  show ?thesis
    using assms by (simp add: preprocess_fputs preprocess_fputc e)
qed

text \<open>
  The assignment \<^verbatim>\<open>x = 1\<close> changes the store when it is evaluated; as an argument in
  \<^verbatim>\<open>fputc(x = 1, stderr)\<close> it does not, and \<^verbatim>\<open>fputs(x = 1, stderr)\<close> gives what
  \<^verbatim>\<open>fputs(7, out)\<close> gives. \<^verbatim>\<open>fputc(7, out, x)\<close> has an argument too many.
\<close>

theorem fputs_fputc_zero_witness:
  "list_all is_argument [[Ident ''x'', Punct ''='', Num 1], [Ident ''stderr'']] \<and>
   list_all is_argument [[Num 7], [Ident ''out'']] \<and>
   evaluate stdio_h [Ident ''x'', Punct ''='', Num 1] Map.empty =
     Inr (VInt 1, [''x'' \<mapsto> VInt 1]) \<and>
   evaluate stdio_h
     (invocation ''fputc'' [[Ident ''x'', Punct ''='', Num 1], [Ident ''stderr'']]) Map.empty =
     Inr (VInt 0, Map.empty) \<and>
   evaluate stdio_h
     (invocation ''fputs'' [[Ident ''x'', Punct ''='', Num 1], [Ident ''stderr'']]) Map.empty =
     evaluate stdio_h (invocation ''fputs'' [[Num 7], [Ident ''out'']]) Map.empty \<and>
   evaluate stdio_h (invocation ''fputc'' [[Num 7], [Ident ''out''], [Ident ''x'']]) Map.empty =
     Inl (WrongArgCount ''fputc'' 3)"
proof -
  have "preprocess stdio_h [Ident ''x'', Punct ''='', Num 1] = Inr [Ident ''x'', Punct ''='', Num 1]"
    unfolding preprocess_stdio_h by (simp add: stdio_h_def then_append_def)
  then have "evaluate stdio_h [Ident ''x'', Punct ''='', Num 1] Map.empty =
      Inr (VInt 1, [''x'' \<mapsto> VInt 1])"
    by (simp add: evaluate_def translate_def parse_expr_def eval_nat_numeral)
  then show ?thesis
    using fputs_fputc_zero
      [of "[[Ident ''x'', Punct ''='', Num 1], [Ident ''stderr'']]" "[[Num 7], [Ident ''out'']]"
          Map.empty]
      fputs_fputc_zero
      [of "[[Num 7], [Ident ''out''], [Ident ''x'']]" "[]" Map.empty]
    by (simp add: is_argument_def)
qed

text \<open>
  C2 as stated fails: the result is not the same for every pair of argument lists.
  \<^verbatim>\<open>fputs(s)\<close> is an error of macro replacement where \<^verbatim>\<open>fputs(s, f)\<close> is 0, and
  \<^verbatim>\<open>fputc(c, f, g)\<close> is an error too.
\<close>

theorem fputs_one_argument:
  "evaluate stdio_h (invocation ''fputs'' [[Ident ''s'']]) Map.empty =
     Inl (WrongArgCount ''fputs'' 1) \<and>
   evaluate stdio_h (invocation ''fputs'' [[Ident ''s''], [Ident ''f'']]) Map.empty =
     Inr (VInt 0, Map.empty) \<and>
   evaluate stdio_h (invocation ''fputc'' [[Ident ''c''], [Ident ''f''], [Ident ''g'']]) Map.empty =
     Inl (WrongArgCount ''fputc'' 3)"
proof -
  have "preprocess stdio_h (invocation ''fputs'' [[Ident ''s'']]) = Inl (WrongArgCount ''fputs'' 1)"
    and "preprocess stdio_h (invocation ''fputs'' [[Ident ''s''], [Ident ''f'']]) = Inr [Num 0]"
    and "preprocess stdio_h (invocation ''fputc'' [[Ident ''c''], [Ident ''f''], [Ident ''g'']]) =
      Inl (WrongArgCount ''fputc'' 3)"
    unfolding preprocess_stdio_h
    by (simp_all add: invocation_def stdio_macros fputs_def fputc_def bind_args_def then_append_def)
  then show ?thesis
    by (simp add: evaluate_zero evaluate_error)
qed

text \<open>
  C3, as amended. For every argument list of two arguments, \<open>fdopen\<close> is replaced by
  what \<open>NULL\<close> is replaced by, the tokens \<^verbatim>\<open>((void*)0)\<close>, whose value is the null
  pointer; for every argument list of one argument, and for the empty one (\<^verbatim>\<open>fclose()\<close>
  has one, empty, argument), \<open>fclose\<close> is replaced by the token \<open>0\<close>. Neither evaluates
  an argument or changes the store. For every argument list of another length the
  invocation is an error of macro replacement.
\<close>

theorem fdopen_null_fclose_zero:
  assumes "list_all is_argument args"
  shows "preprocess stdio_h (invocation ''fdopen'' args) =
           (if length args = 2
            then Inr [LParen, LParen, Ident ''void'', Punct ''*'', RParen, Num 0, RParen]
            else Inl (WrongArgCount ''fdopen'' (max 1 (length args)))) \<and>
         (length args = 2 \<longrightarrow>
            preprocess stdio_h (invocation ''fdopen'' args) = preprocess stdio_h [Ident ''NULL''] \<and>
            evaluate stdio_h (invocation ''fdopen'' args) \<sigma> = Inr (VPtr None, \<sigma>)) \<and>
         (length args \<noteq> 2 \<longrightarrow>
            evaluate stdio_h (invocation ''fdopen'' args) \<sigma> =
              Inl (WrongArgCount ''fdopen'' (max 1 (length args)))) \<and>
         preprocess stdio_h (invocation ''fclose'' args) =
           (if length args \<le> 1 then Inr [Num 0]
            else Inl (WrongArgCount ''fclose'' (length args))) \<and>
         (length args \<le> 1 \<longrightarrow>
            evaluate stdio_h (invocation ''fclose'' args) \<sigma> = Inr (VInt 0, \<sigma>)) \<and>
         (1 < length args \<longrightarrow>
            evaluate stdio_h (invocation ''fclose'' args) \<sigma> =
              Inl (WrongArgCount ''fclose'' (length args)))"
proof -
  have "preprocess stdio_h [Ident ''NULL''] =
      Inr [LParen, LParen, Ident ''void'', Punct ''*'', RParen, Num 0, RParen]"
    by (simp add: preprocess_stdio_h stdio_macros NULL_def then_append_def)
  then show ?thesis
    using assms
    by (simp add: preprocess_fdopen_any preprocess_fclose evaluate_zero evaluate_null evaluate_error)
qed

text \<open>
  \<^verbatim>\<open>fdopen(fd = 2, mode)\<close>, \<^verbatim>\<open>fclose(f = g)\<close> and \<^verbatim>\<open>fclose()\<close>; \<^verbatim>\<open>fdopen(f = g)\<close>
  has an argument too few.
\<close>

theorem fdopen_null_fclose_zero_witness:
  "list_all is_argument [[Ident ''fd'', Punct ''='', Num 2], [Ident ''mode'']] \<and>
   list_all is_argument [[Ident ''f'', Punct ''='', Ident ''g'']] \<and>
   evaluate stdio_h (invocation ''fdopen'' [[Ident ''fd'', Punct ''='', Num 2], [Ident ''mode'']])
     Map.empty = Inr (VPtr None, Map.empty) \<and>
   preprocess stdio_h (invocation ''fclose'' [[Ident ''f'', Punct ''='', Ident ''g'']]) =
     Inr [Num 0] \<and>
   preprocess stdio_h (invocation ''fclose'' []) = Inr [Num 0] \<and>
   preprocess stdio_h (invocation ''fdopen'' [[Ident ''f'', Punct ''='', Ident ''g'']]) =
     Inl (WrongArgCount ''fdopen'' 1)"
  using fdopen_null_fclose_zero
    [of "[[Ident ''fd'', Punct ''='', Num 2], [Ident ''mode'']]" Map.empty]
    fdopen_null_fclose_zero [of "[[Ident ''f'', Punct ''='', Ident ''g'']]" Map.empty]
    fdopen_null_fclose_zero [of "[]" Map.empty]
  by (simp add: is_argument_def)

text \<open>
  C3 as stated fails: \<^verbatim>\<open>fdopen(1)\<close> is not replaced by the null sentinel and
  \<^verbatim>\<open>fclose(a, b)\<close> is not replaced by \<open>0\<close>; both are errors of macro replacement.
\<close>

theorem fdopen_one_argument:
  "preprocess stdio_h (invocation ''fdopen'' [[Num 1]]) = Inl (WrongArgCount ''fdopen'' 1) \<and>
   preprocess stdio_h (invocation ''fclose'' [[Ident ''a''], [Ident ''b'']]) =
     Inl (WrongArgCount ''fclose'' 2)"
  unfolding preprocess_stdio_h
  by (simp add: invocation_def stdio_macros fdopen_def fclose_def bind_args_def)

subsection \<open>The null sentinel\<close>

lemma preprocess_NULL:
  "preprocess stdio_h (Ident ''NULL'' # rest) =
     then_append (Inr [LParen, LParen, Ident ''void'', Punct ''*'', RParen, Num 0, RParen])
       (preprocess stdio_h rest)"
  by (simp add: preprocess_stdio_h stdio_macros NULL_def then_append_def)

lemma preprocess_fdopen:
  assumes "is_argument fd" and "is_argument mode"
  shows "preprocess stdio_h (invocation ''fdopen'' [fd, mode] @ rest) =
     then_append (Inr [LParen, LParen, Ident ''void'', Punct ''*'', RParen, Num 0, RParen])
       (preprocess stdio_h rest)"
  using assms by (simp add: preprocess_stdio_h pp_fdopen)

lemma preprocess_eq_NULL:
  "preprocess stdio_h [Punct ''=='', Ident ''NULL''] =
     Inr [Punct ''=='', LParen, LParen, Ident ''void'', Punct ''*'', RParen, Num 0, RParen]"
  by (simp add: preprocess_stdio_h stdio_macros NULL_def then_append_def)

lemma parse_null:
  "parse_expr [LParen, LParen, Ident ''void'', Punct ''*'', RParen, Num 0, RParen] =
     Some (ECast (TPtr TVoid) (EInt 0))"
  by (simp add: parse_expr_def eval_nat_numeral)

lemma parse_null_eq_null:
  "parse_expr
     [LParen, LParen, Ident ''void'', Punct ''*'', RParen, Num 0, RParen, Punct ''=='',
      LParen, LParen, Ident ''void'', Punct ''*'', RParen, Num 0, RParen] =
     Some (EEq (ECast (TPtr TVoid) (EInt 0)) (ECast (TPtr TVoid) (EInt 0)))"
  by (simp add: parse_expr_def eval_nat_numeral)

lemma evaluate_null_eq_null:
  assumes "preprocess f toks =
     Inr [LParen, LParen, Ident ''void'', Punct ''*'', RParen, Num 0, RParen, Punct ''=='',
          LParen, LParen, Ident ''void'', Punct ''*'', RParen, Num 0, RParen]"
  shows "evaluate f toks \<sigma> = Inr (VInt 1, \<sigma>)"
  using assms by (simp add: evaluate_def translate_def parse_null_eq_null)

text \<open>
  C7. \<open>NULL\<close> is replaced by \<^verbatim>\<open>((void*)0)\<close>, a constant expression of type
  \<^verbatim>\<open>void *\<close> and a null pointer constant: it may stand wherever a pointer to \<open>FILE\<close>
  or a pointer to any other type \<open>t\<close> is expected. Its value is the null pointer, it
  compares equal to itself, and for all arguments \<open>x\<close>, \<open>y\<close> the comparison
  \<^verbatim>\<open>fdopen(x, y) == NULL\<close> gives 1; no store is changed.
\<close>

theorem NULL_usable_and_equal:
  assumes "is_argument x" and "is_argument y"
  shows "translate stdio_h [Ident ''NULL''] = Inr (ECast (TPtr TVoid) (EInt 0)) \<and>
         type_of (ECast (TPtr TVoid) (EInt 0)) = Some (TPtr TVoid) \<and>
         usable_as (TPtr FILE) (ECast (TPtr TVoid) (EInt 0)) \<and>
         usable_as (TPtr t) (ECast (TPtr TVoid) (EInt 0)) \<and>
         evaluate stdio_h [Ident ''NULL''] \<sigma> = Inr (VPtr None, \<sigma>) \<and>
         evaluate stdio_h [Ident ''NULL'', Punct ''=='', Ident ''NULL''] \<sigma> = Inr (VInt 1, \<sigma>) \<and>
         evaluate stdio_h (invocation ''fdopen'' [x, y] @ [Punct ''=='', Ident ''NULL'']) \<sigma> =
           Inr (VInt 1, \<sigma>)"
proof -
  have n: "preprocess stdio_h [Ident ''NULL''] =
      Inr [LParen, LParen, Ident ''void'', Punct ''*'', RParen, Num 0, RParen]"
    using preprocess_NULL [of "[]"] by (simp add: preprocess_stdio_h then_append_def)
  then have "translate stdio_h [Ident ''NULL''] = Inr (ECast (TPtr TVoid) (EInt 0))"
    by (simp add: translate_def parse_null)
  moreover from n have "evaluate stdio_h [Ident ''NULL''] \<sigma> = Inr (VPtr None, \<sigma>)"
    by (rule evaluate_null)
  moreover have "evaluate stdio_h [Ident ''NULL'', Punct ''=='', Ident ''NULL''] \<sigma> =
      Inr (VInt 1, \<sigma>)"
    by (rule evaluate_null_eq_null)
       (simp add: preprocess_NULL preprocess_eq_NULL then_append_def)
  moreover have "evaluate stdio_h (invocation ''fdopen'' [x, y] @ [Punct ''=='', Ident ''NULL'']) \<sigma> =
      Inr (VInt 1, \<sigma>)"
    using assms
    by (intro evaluate_null_eq_null)
       (simp add: preprocess_fdopen preprocess_eq_NULL then_append_def)
  ultimately show ?thesis by simp
qed

text \<open>\<^verbatim>\<open>fdopen(3, mode) == NULL\<close>, and \<open>NULL\<close> where a \<^verbatim>\<open>const char *\<close> is expected.\<close>

theorem NULL_usable_and_equal_witness:
  "is_argument [Num 3] \<and> is_argument [Ident ''mode''] \<and>
   usable_as (TPtr FILE) (ECast (TPtr TVoid) (EInt 0)) \<and>
   usable_as (TPtr (TConst TChar)) (ECast (TPtr TVoid) (EInt 0)) \<and>
   evaluate stdio_h
     (invocation ''fdopen'' [[Num 3], [Ident ''mode'']] @ [Punct ''=='', Ident ''NULL''])
     Map.empty = Inr (VInt 1, Map.empty)"
  using NULL_usable_and_equal [of "[Num 3]" "[Ident ''mode'']" "TConst TChar" Map.empty]
  by (simp add: is_argument_def)

subsection \<open>Opening always fails\<close>

text \<open>
  C9. For every pair of arguments, \<open>fdopen(fd, mode)\<close> has the null pointer as its
  value, never a pointer to a stream. A conditional that compares the result with
  \<open>NULL\<close> takes the branch of the failure, as does one that tests the result itself;
  and \<open>fclose\<close> of that result, \<^verbatim>\<open>fclose(fdopen(fd, mode))\<close>, has the value 0.
\<close>

theorem fdopen_always_fails:
  assumes "is_argument fd" and "is_argument mode"
  shows "evaluate stdio_h (invocation ''fdopen'' [fd, mode]) \<sigma> = Inr (VPtr None, \<sigma>) \<and>
         branch stdio_h (invocation ''fdopen'' [fd, mode] @ [Punct ''=='', Ident ''NULL'']) \<sigma>
           failed opened = Inr (failed, \<sigma>) \<and>
         branch stdio_h (invocation ''fdopen'' [fd, mode]) \<sigma> opened failed = Inr (failed, \<sigma>) \<and>
         evaluate stdio_h (invocation ''fclose'' [invocation ''fdopen'' [fd, mode]]) \<sigma> =
           Inr (VInt 0, \<sigma>)"
proof -
  have "evaluate stdio_h (invocation ''fdopen'' [fd, mode]) \<sigma> = Inr (VPtr None, \<sigma>)"
    using assms preprocess_fdopen [of fd mode "[]"]
    by (intro evaluate_null) (simp add: preprocess_stdio_h then_append_def)
  moreover have "evaluate stdio_h (invocation ''fdopen'' [fd, mode] @ [Punct ''=='', Ident ''NULL'']) \<sigma> =
      Inr (VInt 1, \<sigma>)"
    using assms
    by (intro evaluate_null_eq_null)
       (simp add: preprocess_fdopen preprocess_eq_NULL then_append_def)
  moreover have "is_argument (invocation ''fdopen'' [fd, mode])"
    using assms by (simp add: invocation_is_argument)
  then have "evaluate stdio_h (invocation ''fclose'' [invocation ''fdopen'' [fd, mode]]) \<sigma> =
      Inr (VInt 0, \<sigma>)"
    by (intro evaluate_zero) (simp add: preprocess_stdio_h pp_fclose)
  ultimately show ?thesis by (simp add: branch_def)
qed

text \<open>\<^verbatim>\<open>if (fdopen(1, mode) == NULL)\<close> and \<^verbatim>\<open>fclose(fdopen(1, mode))\<close>.\<close>

theorem fdopen_always_fails_witness:
  "is_argument [Num 1] \<and> is_argument [Ident ''mode''] \<and>
   branch stdio_h
     (invocation ''fdopen'' [[Num 1], [Ident ''mode'']] @ [Punct ''=='', Ident ''NULL''])
     Map.empty ''failed'' ''opened'' = Inr (''failed'', Map.empty) \<and>
   evaluate stdio_h (invocation ''fclose'' [invocation ''fdopen'' [[Num 1], [Ident ''mode'']]])
     Map.empty = Inr (VInt 0, Map.empty)"
  using fdopen_always_fails [of "[Num 1]" "[Ident ''mode'']" Map.empty "''failed''" "''opened''"]
  by (simp add: is_argument_def)

subsection \<open>Declarations, compilation and linking\<close>

lemmas decl_defs = size_t_def FILE_def stderr_def fprintf_def

lemma decls_of_stdio_h:
  "decls_of stdio_h = [Typedef ''size_t'' size_t, Typedef ''FILE'' FILE, stderr, fprintf]"
  by (simp add: stdio_h_def)

lemma no_definitions: "filter is_definition (decls_of stdio_h) = []"
  by (simp add: decls_of_stdio_h decl_defs)

lemma declare_all_decls: "declare_all ds s = Inr s' \<Longrightarrow> decls s' = decls s @ ds"
proof (induction ds arbitrary: s)
  case Nil
  then show ?case by simp
next
  case (Cons d ds)
  then show ?case
    by (auto simp: declare_in_def split: sum.splits if_splits)
qed

lemma lookup_decl_append:
  "lookup_decl ds n = Some d \<Longrightarrow> lookup_decl (ds @ ds') n = Some d"
  unfolding lookup_decl_def by (induction ds) auto

lemma lookup_fprintf:
  "lookup_decl (decls_of stdio_h) ''fprintf'' = Some fprintf"
  by (simp add: decls_of_stdio_h lookup_decl_def decl_defs)

lemma check_call_fprintf:
  assumes "2 \<le> length ts" and "assignable (TPtr FILE) (ts ! 0)"
    and "assignable (TPtr (TConst TChar)) (ts ! 1)"
  shows "check_call ''fprintf'' [(''stream'', TPtr FILE), (''format'', TPtr (TConst TChar))] True ts =
     Inr [''fprintf'']"
proof -
  from assms(1) obtain a b rest where ts: "ts = a # b # rest"
    by (cases ts; cases "tl ts") auto
  with assms show ?thesis
    by (simp add: check_call_def)
qed

lemma check_use_fprintf:
  assumes "2 \<le> length ts" and "assignable (TPtr FILE) (ts ! 0)"
    and "assignable (TPtr (TConst TChar)) (ts ! 1)"
  shows "check_use (decls_of stdio_h @ ds) (Call ''fprintf'' ts) = Inr [''fprintf'']"
  using lookup_decl_append [OF lookup_fprintf, of ds] check_call_fprintf [OF assms]
  by (simp add: fprintf_def)

lemma link_undefined:
  assumes "x \<in> set (concat (map obj_undefined objs))"
    and "x \<notin> set (concat (map obj_defined objs))"
  shows "\<exists>e. link objs = Inl e"
proof -
  from assms have "find (\<lambda>x. x \<notin> set (concat (map obj_defined objs)))
      (concat (map obj_undefined objs)) \<noteq> None"
    unfolding find_None_iff by blast
  then show ?thesis
    by (auto simp: link_def split: option.splits)
qed

text \<open>
  C4. \<open>fprintf\<close> is declared and not defined. Read into a fresh translation unit, the
  header holds one declaration of that name: a function that returns \<^verbatim>\<open>int\<close>, whose
  parameters are a pointer to \<open>FILE\<close> and a pointer to \<^verbatim>\<open>const char\<close>, followed by
  \<^verbatim>\<open>...\<close>; and no declaration of the header is a definition. A call whose first two
  arguments may be passed for these parameters compiles: added to any unit \<open>u\<close> that
  compiles, it gives a unit that compiles, that defines what \<open>u\<close> defines and that
  leaves \<open>fprintf\<close> undefined; linked with object files none of which defines
  \<open>fprintf\<close>, it fails to link. The unit that holds the call alone compiles to an object
  file whose one undefined symbol is \<open>fprintf\<close>, and linking it fails with that
  unresolved symbol.
\<close>

theorem fprintf_declared_not_defined:
  assumes "2 \<le> length ts" and "assignable (TPtr FILE) (ts ! 0)"
    and "assignable (TPtr (TConst TChar)) (ts ! 1)"
    and "compile stdio_h u = Inr ob"
    and "list_all (\<lambda>ob. ''fprintf'' \<notin> set (obj_defined ob)) (ob # objs)"
  shows "(\<exists>s. include_file stdio_h tu_start = Inr s \<and>
              filter (\<lambda>d. decl_name d = ''fprintf'') (decls s) =
                [FunDecl ''fprintf'' (TInteger Signed RInt)
                   [(''stream'', TPtr FILE), (''format'', TPtr (TConst TChar))] True] \<and>
              filter is_definition (decls s) = []) \<and>
         (\<exists>ob'. compile stdio_h (u\<lparr>uses := Call ''fprintf'' ts # uses u\<rparr>) = Inr ob' \<and>
                obj_defined ob' = obj_defined ob \<and>
                ''fprintf'' \<in> set (obj_undefined ob') \<and>
                (\<exists>e. link (ob' # objs) = Inl e)) \<and>
         compile stdio_h \<lparr>own = [], uses = [Call ''fprintf'' ts]\<rparr> =
           Inr \<lparr>obj_defined = [], obj_undefined = [''fprintf'']\<rparr> \<and>
         link [\<lparr>obj_defined = [], obj_undefined = [''fprintf'']\<rparr>] = Inl (Unresolved ''fprintf'')"
proof (intro conjI)
  show "\<exists>s. include_file stdio_h tu_start = Inr s \<and>
      filter (\<lambda>d. decl_name d = ''fprintf'') (decls s) =
        [FunDecl ''fprintf'' (TInteger Signed RInt)
           [(''stream'', TPtr FILE), (''format'', TPtr (TConst TChar))] True] \<and>
      filter is_definition (decls s) = []"
    by (simp add: include_stdio_h decls_of_stdio_h stderr_def fprintf_def)
next
  from assms(4) obtain s' refs where
    s': "declare_all (own u) \<lparr>macros = defines_of stdio_h, decls = decls_of stdio_h\<rparr> = Inr s'"
    and refs: "check_uses (decls s') (uses u) = Inr refs"
    and ob: "ob = \<lparr>obj_defined = map decl_name (filter is_definition (decls s')),
                   obj_undefined = remdups (filter (\<lambda>x. x \<notin> decl_name ` set (filter is_definition (decls s'))) refs)\<rparr>"
    by (auto simp: compile_def include_stdio_h split: sum.splits)
  from declare_all_decls [OF s'] have d: "decls s' = decls_of stdio_h @ own u" by simp
  have c: "check_use (decls s') (Call ''fprintf'' ts) = Inr [''fprintf'']"
    unfolding d using assms(1-3) by (rule check_use_fprintf)
  define ob' where "ob' =
    \<lparr>obj_defined = map decl_name (filter is_definition (decls s')),
     obj_undefined = remdups (filter (\<lambda>x. x \<notin> decl_name ` set (filter is_definition (decls s')))
                               (''fprintf'' # refs))\<rparr>"
  have 1: "compile stdio_h (u\<lparr>uses := Call ''fprintf'' ts # uses u\<rparr>) = Inr ob'"
    using s' refs c by (simp add: compile_def include_stdio_h ob'_def)
  have 2: "obj_defined ob' = obj_defined ob"
    by (simp add: ob ob'_def)
  from assms(5) have nd: "''fprintf'' \<notin> set (obj_defined ob)" by simp
  then have 3: "''fprintf'' \<in> set (obj_undefined ob')"
    by (simp add: ob ob'_def)
  from assms(5) 2 have "''fprintf'' \<notin> set (concat (map obj_defined (ob' # objs)))"
    by (auto simp: list_all_iff)
  with 3 have "\<exists>e. link (ob' # objs) = Inl e"
    by (intro link_undefined [of "''fprintf''"]) auto
  with 1 2 3 show "\<exists>ob'. compile stdio_h (u\<lparr>uses := Call ''fprintf'' ts # uses u\<rparr>) = Inr ob' \<and>
      obj_defined ob' = obj_defined ob \<and> ''fprintf'' \<in> set (obj_undefined ob') \<and>
      (\<exists>e. link (ob' # objs) = Inl e)"
    by blast
next
  show "compile stdio_h \<lparr>own = [], uses = [Call ''fprintf'' ts]\<rparr> =
      Inr \<lparr>obj_defined = [], obj_undefined = [''fprintf'']\<rparr>"
    using check_use_fprintf [OF assms(1-3), of "[]"]
    by (simp add: compile_def include_stdio_h no_definitions)
next
  show "link [\<lparr>obj_defined = [], obj_undefined = [''fprintf'']\<rparr>] = Inl (Unresolved ''fprintf'')"
    by (simp add: link_def)
qed

text \<open>
  \<^verbatim>\<open>fprintf(stderr, fmt, n)\<close> with \<^verbatim>\<open>char *fmt\<close> and \<^verbatim>\<open>int n\<close>, linked with an
  object file that defines \<open>stderr\<close> and not \<open>fprintf\<close>.
\<close>

theorem fprintf_declared_not_defined_witness:
  "assignable (TPtr FILE) (TPtr FILE) \<and>
   assignable (TPtr (TConst TChar)) (TPtr TChar) \<and>
   compile stdio_h \<lparr>own = [], uses = [Ref ''stderr'']\<rparr> =
     Inr \<lparr>obj_defined = [], obj_undefined = [''stderr'']\<rparr> \<and>
   compile stdio_h
     \<lparr>own = [], uses = [Call ''fprintf'' [TPtr FILE, TPtr TChar, TInteger Signed RInt], Ref ''stderr'']\<rparr> =
     Inr \<lparr>obj_defined = [], obj_undefined = [''fprintf'', ''stderr'']\<rparr> \<and>
   link [\<lparr>obj_defined = [], obj_undefined = [''fprintf'', ''stderr'']\<rparr>,
         \<lparr>obj_defined = [''stderr''], obj_undefined = []\<rparr>] = Inl (Unresolved ''fprintf'')"
proof -
  have c: "compile stdio_h \<lparr>own = [], uses = [Ref ''stderr'']\<rparr> =
      Inr \<lparr>obj_defined = [], obj_undefined = [''stderr'']\<rparr>"
    by (simp add: compile_def include_stdio_h decls_of_stdio_h lookup_decl_def decl_defs)
  have l: "link [\<lparr>obj_defined = [], obj_undefined = [''fprintf'', ''stderr'']\<rparr>,
         \<lparr>obj_defined = [''stderr''], obj_undefined = []\<rparr>] = Inl (Unresolved ''fprintf'')"
    by (simp add: link_def)
  from fprintf_declared_not_defined
    [of "[TPtr FILE, TPtr TChar, TInteger Signed RInt]" "\<lparr>own = [], uses = [Ref ''stderr'']\<rparr>"
        "\<lparr>obj_defined = [], obj_undefined = [''stderr'']\<rparr>"
        "[\<lparr>obj_defined = [''stderr''], obj_undefined = []\<rparr>]"]
  obtain ob' where
    "compile stdio_h
       \<lparr>own = [], uses = [Call ''fprintf'' [TPtr FILE, TPtr TChar, TInteger Signed RInt], Ref ''stderr'']\<rparr> =
     Inr ob'" and "obj_defined ob' = []" and "''fprintf'' \<in> set (obj_undefined ob')"
    using c by (auto simp: FILE_def)
  moreover have "compile stdio_h
       \<lparr>own = [], uses = [Call ''fprintf'' [TPtr FILE, TPtr TChar, TInteger Signed RInt], Ref ''stderr'']\<rparr> =
     Inr \<lparr>obj_defined = [], obj_undefined = [''fprintf'', ''stderr'']\<rparr>"
    by (simp add: compile_def include_stdio_h decls_of_stdio_h lookup_decl_def check_call_def decl_defs)
  ultimately show ?thesis using c l by (simp add: FILE_def)
qed

text \<open>
  C5. Read into a fresh translation unit, the header holds exactly one declaration
  named \<open>stderr\<close>, \<^verbatim>\<open>extern FILE *stderr\<close>, and no definition at all. A unit that
  refers to \<open>stderr\<close> compiles to an object file that leaves the symbol undefined, and
  does not link alone; it links with the object file of a unit that includes the header
  and defines \<^verbatim>\<open>FILE *stderr\<close>, and not with two of them.
\<close>

theorem stderr_declared_once:
  "(\<exists>s. include_file stdio_h tu_start = Inr s \<and>
        filter (\<lambda>d. decl_name d = ''stderr'') (decls s) = [ExternVar ''stderr'' (TPtr FILE)] \<and>
        filter is_definition (decls s) = []) \<and>
   compile stdio_h \<lparr>own = [], uses = [Ref ''stderr'']\<rparr> =
     Inr \<lparr>obj_defined = [], obj_undefined = [''stderr'']\<rparr> \<and>
   link [\<lparr>obj_defined = [], obj_undefined = [''stderr'']\<rparr>] = Inl (Unresolved ''stderr'') \<and>
   compile stdio_h \<lparr>own = [VarDef ''stderr'' (TPtr FILE)], uses = []\<rparr> =
     Inr \<lparr>obj_defined = [''stderr''], obj_undefined = []\<rparr> \<and>
   link [\<lparr>obj_defined = [], obj_undefined = [''stderr'']\<rparr>,
         \<lparr>obj_defined = [''stderr''], obj_undefined = []\<rparr>] = Inr [''stderr''] \<and>
   link [\<lparr>obj_defined = [], obj_undefined = [''stderr'']\<rparr>,
         \<lparr>obj_defined = [''stderr''], obj_undefined = []\<rparr>,
         \<lparr>obj_defined = [''stderr''], obj_undefined = []\<rparr>] = Inl (MultiplyDefined ''stderr'')"
proof (intro conjI)
  show "\<exists>s. include_file stdio_h tu_start = Inr s \<and>
        filter (\<lambda>d. decl_name d = ''stderr'') (decls s) = [ExternVar ''stderr'' (TPtr FILE)] \<and>
        filter is_definition (decls s) = []"
    by (simp add: include_stdio_h decls_of_stdio_h stderr_def fprintf_def)
  show "compile stdio_h \<lparr>own = [], uses = [Ref ''stderr'']\<rparr> =
     Inr \<lparr>obj_defined = [], obj_undefined = [''stderr'']\<rparr>"
    by (simp add: compile_def include_stdio_h decls_of_stdio_h lookup_decl_def decl_defs)
  show "compile stdio_h \<lparr>own = [VarDef ''stderr'' (TPtr FILE)], uses = []\<rparr> =
     Inr \<lparr>obj_defined = [''stderr''], obj_undefined = []\<rparr>"
    by (simp add: compile_def include_stdio_h decls_of_stdio_h declare_in_def decl_defs)
qed (simp_all add: link_def)

text \<open>
  C6. \<open>FILE\<close> names a struct type without members. It has one value (any two objects
  of the type are equal), and the access to a member, whatever its name, is an error of
  compilation: through the pointer \<open>stderr\<close> (\<^verbatim>\<open>stderr->m\<close>) and on an object of the type
  (\<^verbatim>\<open>FILE f; f.m\<close>).
\<close>

theorem FILE_opaque:
  "(\<exists>s. include_file stdio_h tu_start = Inr s \<and>
        lookup_decl (decls s) ''FILE'' = Some (Typedef ''FILE'' (TStruct []))) \<and>
   FILE = TStruct [] \<and>
   has_type dm (VStruct []) FILE \<and>
   (has_type dm v FILE \<and> has_type dm w FILE \<longrightarrow> v = w) \<and>
   member_type FILE m = Inl (NoMember m) \<and>
   compile stdio_h \<lparr>own = [], uses = [Arrow ''stderr'' m]\<rparr> = Inl (NoMember m) \<and>
   compile stdio_h \<lparr>own = [VarDef ''f'' FILE], uses = [Dot ''f'' m]\<rparr> = Inl (NoMember m)"
proof -
  have only: "v = VStruct []" if "has_type dm v FILE" for v
    using that by (cases v) (simp_all add: FILE_def)
  have "compile stdio_h \<lparr>own = [], uses = [Arrow ''stderr'' m]\<rparr> = Inl (NoMember m)"
    by (simp add: compile_def include_stdio_h decls_of_stdio_h lookup_decl_def decl_defs)
  moreover have "compile stdio_h \<lparr>own = [VarDef ''f'' FILE], uses = [Dot ''f'' m]\<rparr> = Inl (NoMember m)"
    by (simp add: compile_def include_stdio_h decls_of_stdio_h lookup_decl_def declare_in_def decl_defs)
  moreover have "\<exists>s. include_file stdio_h tu_start = Inr s \<and>
        lookup_decl (decls s) ''FILE'' = Some (Typedef ''FILE'' (TStruct []))"
    by (simp add: include_stdio_h decls_of_stdio_h lookup_decl_def decl_defs)
  ultimately show ?thesis
    using only [of v] only [of w] by (auto simp: FILE_def)
qed

text \<open>The member \<open>fd\<close>.\<close>

theorem FILE_opaque_witness:
  "has_type (abi Wasm32) (VStruct []) FILE \<and>
   member_type FILE ''fd'' = Inl (NoMember ''fd'') \<and>
   compile stdio_h \<lparr>own = [], uses = [Arrow ''stderr'' ''fd'']\<rparr> = Inl (NoMember ''fd'')"
  using FILE_opaque [of "abi Wasm32" "VStruct []" "VStruct []" "''fd''"]
  by simp

text \<open>
  C8. \<open>size_t\<close> names \<^verbatim>\<open>unsigned long\<close>, an unsigned integer type: under every data
  model it has the width of \<^verbatim>\<open>long\<close> and its values are integers that are not
  negative. On both targets of the sysroot that width is the width of a pointer, and the
  values of \<open>size_t\<close> are the integers from 0 to \<open>2 ^ pointer_bits - 1\<close>.
\<close>

theorem size_t_unsigned_pointer_width:
  "(\<exists>s. include_file stdio_h tu_start = Inr s \<and>
        lookup_decl (decls s) ''size_t'' = Some (Typedef ''size_t'' (TInteger Unsigned RLong))) \<and>
   size_t = TInteger Unsigned RLong \<and>
   is_unsigned size_t \<and>
   type_bits dm size_t = Some (long_bits dm) \<and>
   (has_type dm v size_t \<longrightarrow> (\<exists>i. v = VInt i \<and> 0 \<le> i \<and> i < 2 ^ long_bits dm)) \<and>
   type_bits (abi tgt) size_t = Some (pointer_bits (abi tgt)) \<and>
   type_bits (abi tgt) size_t = type_bits (abi tgt) (TPtr t) \<and>
   (has_type (abi tgt) v size_t \<longrightarrow>
      (\<exists>i. v = VInt i \<and> 0 \<le> i \<and> i < 2 ^ pointer_bits (abi tgt))) \<and>
   has_type (abi tgt) (VInt 0) size_t \<and>
   has_type (abi tgt) (VInt (2 ^ pointer_bits (abi tgt) - 1)) size_t"
proof -
  have hdr: "\<exists>s. include_file stdio_h tu_start = Inr s \<and>
        lookup_decl (decls s) ''size_t'' = Some (Typedef ''size_t'' (TInteger Unsigned RLong))"
    by (simp add: include_stdio_h decls_of_stdio_h lookup_decl_def decl_defs)
  have w: "long_bits (abi tgt) = pointer_bits (abi tgt)"
    by (cases tgt) simp_all
  have r: "\<exists>i. v = VInt i \<and> 0 \<le> i \<and> i < 2 ^ long_bits d" if "has_type d v size_t" for d
    using that by (cases v) (simp_all add: size_t_def)
  have b: "type_bits d size_t = Some (long_bits d)" for d
    by (simp add: size_t_def)
  have top: "has_type (abi tgt) (VInt 0) size_t"
    "has_type (abi tgt) (VInt (2 ^ pointer_bits (abi tgt) - 1)) size_t"
    by (simp_all add: size_t_def w)
  have u: "size_t = TInteger Unsigned RLong" "is_unsigned size_t"
    by (simp_all add: size_t_def)
  show ?thesis
  proof (intro conjI impI)
    show "\<exists>i. v = VInt i \<and> 0 \<le> i \<and> i < 2 ^ long_bits dm" if "has_type dm v size_t"
      using that by (rule r)
    show "\<exists>i. v = VInt i \<and> 0 \<le> i \<and> i < 2 ^ pointer_bits (abi tgt)"
      if "has_type (abi tgt) v size_t"
      using r [OF that] by (simp add: w)
  qed (simp_all add: hdr w b top u)
qed

text \<open>The largest value on wasm32, and the width on wasm64.\<close>

theorem size_t_unsigned_pointer_width_witness:
  "has_type (abi Wasm32) (VInt 4294967295) size_t \<and>
   (\<exists>i. VInt 4294967295 = VInt i \<and> 0 \<le> i \<and> i < 2 ^ pointer_bits (abi Wasm32)) \<and>
   type_bits (abi Wasm64) size_t = Some 64"
proof -
  have "has_type (abi Wasm32) (VInt 4294967295) size_t"
    by (simp add: size_t_def)
  moreover have "type_bits (abi Wasm64) size_t = Some 64"
    using size_t_unsigned_pointer_width [of "abi Wasm64" "VInt 0" Wasm64 TVoid] by simp
  ultimately show ?thesis
    using size_t_unsigned_pointer_width [of "abi Wasm32" "VInt 4294967295" Wasm32 TVoid] by blast
qed

end
